theory Spec2Isabelle
  imports Main "HOL-Library.Word"
begin

section \<open>Solidity values and failures\<close>

text \<open>
  The three contracts of the repository are written for Solidity 0.8.17: \<open>uint256\<close>
  arithmetic is checked (an overflow or underflow aborts the call with \<open>Panic(0x11)\<close>),
  a failed \<open>require\<close> aborts it with \<open>Error(string)\<close>, and an aborted call leaves
  storage and the event log as they were.
\<close>

type_synonym bytes32 = "256 word"
type_synonym address = "160 word"
type_synonym uint256 = "256 word"

datatype error = Revert string | Panic nat

text \<open>\<open>msg.sender\<close> and \<open>block.timestamp\<close>, the two values a call reads from its environment.\<close>

record msg =
  sender :: address
  timestamp :: uint256

definition require :: "bool \<Rightarrow> string \<Rightarrow> (error + 'a) \<Rightarrow> (error + 'a)" where
  "require c reason body = (if c then body else Inl (Revert reason))"

text \<open>\<open>x++\<close> and \<open>a - b\<close> on \<open>uint256\<close> under checked arithmetic.\<close>

definition checked_inc :: "uint256 \<Rightarrow> error + uint256" where
  "checked_inc x = (if x = - 1 then Inl (Panic 17) else Inr (x + 1))"

definition checked_sub :: "uint256 \<Rightarrow> uint256 \<Rightarrow> error + uint256" where
  "checked_sub a b = (if a < b then Inl (Panic 17) else Inr (a - b))"

section \<open>The registry with counters: src/CertificateVerificationQR.sol\<close>

record Certificate =
  isValid :: bool
  issuer :: address
  issuedAt :: uint256

datatype event =
  CertificateIssued bytes32 address uint256
  | CertificateRevoked bytes32 address uint256

text \<open>
  Storage of the contract, and the log of the events it has emitted. A Solidity mapping
  is total: a key never written reads as the zero value of the struct.
\<close>

record contract =
  certificates :: "bytes32 \<Rightarrow> Certificate"
  totalCertificatesIssued :: uint256
  totalCertificatesRevoked :: uint256
  emitted :: "event list"

definition zero_Certificate :: Certificate where
  "zero_Certificate = \<lparr>isValid = False, issuer = 0, issuedAt = 0\<rparr>"

text \<open>The state after the constructor has run.\<close>

definition deployed :: contract where
  "deployed = \<lparr>certificates = (\<lambda>_. zero_Certificate), totalCertificatesIssued = 0,
     totalCertificatesRevoked = 0, emitted = []\<rparr>"

subsection \<open>Modifiers\<close>

definition validHash :: "bytes32 \<Rightarrow> (error + 'a) \<Rightarrow> (error + 'a)" where
  "validHash certHash body =
     require (certHash \<noteq> 0) ''Invalid certificate hash: cannot be zero'' body"

definition certificateExists :: "contract \<Rightarrow> bytes32 \<Rightarrow> (error + 'a) \<Rightarrow> (error + 'a)" where
  "certificateExists s certHash body =
     require (isValid (certificates s certHash))
       ''Certificate does not exist or has been revoked'' body"

definition onlyIssuer :: "contract \<Rightarrow> msg \<Rightarrow> bytes32 \<Rightarrow> (error + 'a) \<Rightarrow> (error + 'a)" where
  "onlyIssuer s m certHash body =
     require (issuer (certificates s certHash) = sender m)
       ''Not authorized: only the issuer can revoke this certificate'' body"

subsection \<open>Main functions\<close>

definition issueCertificate :: "msg \<Rightarrow> bytes32 \<Rightarrow> contract \<Rightarrow> error + contract" where
  "issueCertificate m certHash s =
     validHash certHash
       (require (\<not> isValid (certificates s certHash)) ''Certificate already issued''
         (require (issuer (certificates s certHash) = 0)
            ''Certificate was previously issued and revoked''
            (let s1 = s\<lparr>certificates := (certificates s)
                        (certHash := \<lparr>isValid = True, issuer = sender m,
                                      issuedAt = timestamp m\<rparr>)\<rparr>
             in case checked_inc (totalCertificatesIssued s1) of
                  Inl e \<Rightarrow> Inl e
                | Inr n \<Rightarrow>
                    Inr (s1\<lparr>totalCertificatesIssued := n,
                            emitted := emitted s1 @
                              [CertificateIssued certHash (sender m) (timestamp m)]\<rparr>))))"

definition verifyCertificate :: "contract \<Rightarrow> bytes32 \<Rightarrow> error + (bool \<times> address \<times> uint256)" where
  "verifyCertificate s certHash =
     validHash certHash
       (let cert = certificates s certHash
        in Inr (isValid cert, issuer cert, issuedAt cert))"

definition revokeCertificate :: "msg \<Rightarrow> bytes32 \<Rightarrow> contract \<Rightarrow> error + contract" where
  "revokeCertificate m certHash s =
     validHash certHash
       (certificateExists s certHash
         (onlyIssuer s m certHash
            (let s1 = s\<lparr>certificates := (certificates s)
                        (certHash := (certificates s certHash)\<lparr>isValid := False\<rparr>)\<rparr>
             in case checked_inc (totalCertificatesRevoked s1) of
                  Inl e \<Rightarrow> Inl e
                | Inr n \<Rightarrow>
                    Inr (s1\<lparr>totalCertificatesRevoked := n,
                            emitted := emitted s1 @
                              [CertificateRevoked certHash (sender m) (timestamp m)]\<rparr>))))"

subsection \<open>Query functions\<close>

definition isCertificateValid :: "contract \<Rightarrow> bytes32 \<Rightarrow> bool" where
  "isCertificateValid s certHash = isValid (certificates s certHash)"

definition getCertificateIssuer :: "contract \<Rightarrow> bytes32 \<Rightarrow> address" where
  "getCertificateIssuer s certHash = issuer (certificates s certHash)"

definition getCertificateIssuedAt :: "contract \<Rightarrow> bytes32 \<Rightarrow> uint256" where
  "getCertificateIssuedAt s certHash = issuedAt (certificates s certHash)"

definition getStatistics :: "contract \<Rightarrow> error + (uint256 \<times> uint256 \<times> uint256)" where
  "getStatistics s =
     (case checked_sub (totalCertificatesIssued s) (totalCertificatesRevoked s) of
        Inl e \<Rightarrow> Inl e
      | Inr active \<Rightarrow> Inr (totalCertificatesIssued s, totalCertificatesRevoked s, active))"

definition getCertificateDetails :: "contract \<Rightarrow> bytes32 \<Rightarrow> bool \<times> address \<times> uint256 \<times> bool" where
  "getCertificateDetails s certHash =
     (let cert = certificates s certHash;
          wasEverIssued = (issuer cert \<noteq> 0)
      in (isValid cert, issuer cert, issuedAt cert, wasEverIssued))"

subsection \<open>Transactions\<close>

text \<open>
  The contract has two functions that write storage; every other public function is
  declared \<open>view\<close>. A transaction is one call of a writing function. A call that
  aborts leaves the state as it was.
\<close>

datatype call = Issue bytes32 | Revoke bytes32

fun call_result :: "contract \<Rightarrow> msg \<times> call \<Rightarrow> error + contract" where
  "call_result s (m, Issue k) = issueCertificate m k s"
| "call_result s (m, Revoke k) = revokeCertificate m k s"

definition exec :: "contract \<Rightarrow> msg \<times> call \<Rightarrow> contract" where
  "exec s t = (case call_result s t of Inl e \<Rightarrow> s | Inr s' \<Rightarrow> s')"

definition run :: "contract \<Rightarrow> (msg \<times> call) list \<Rightarrow> contract" where
  "run s ts = foldl exec s ts"

text \<open>The transactions of a sequence that went through, in order.\<close>

fun successes :: "contract \<Rightarrow> (msg \<times> call) list \<Rightarrow> (msg \<times> call) list" where
  "successes s [] = []"
| "successes s (t # ts) =
     (case call_result s t of
        Inl e \<Rightarrow> successes s ts
      | Inr s' \<Rightarrow> t # successes s' ts)"

definition succeeds :: "contract \<Rightarrow> msg \<times> call \<Rightarrow> bool" where
  "succeeds s t = (case call_result s t of Inl e \<Rightarrow> False | Inr s' \<Rightarrow> True)"

fun is_Issue :: "msg \<times> call \<Rightarrow> bool" where
  "is_Issue (m, Issue k) = True"
| "is_Issue (m, Revoke k) = False"

fun is_Revoke :: "msg \<times> call \<Rightarrow> bool" where
  "is_Revoke (m, Issue k) = False"
| "is_Revoke (m, Revoke k) = True"

text \<open>
  On the chain \<open>msg.sender\<close> is the account that signed the transaction or a calling
  contract, and no key signs for \<open>address(0)\<close>: the sequences of transactions a
  deployed contract can receive come from non-zero addresses.
\<close>

definition from_accounts :: "(msg \<times> call) list \<Rightarrow> bool" where
  "from_accounts ts = list_all (\<lambda>t. sender (fst t) \<noteq> 0) ts"

text \<open>
  The state of a key as the contract itself tells it: \<open>isValid\<close> for a live certificate,
  and \<open>issuer \<noteq> address(0)\<close> (the test of \<open>getCertificateDetails\<close>) for one that was
  ever issued.
\<close>

datatype key_state = Unknown | Active | Revoked

definition state_of :: "contract \<Rightarrow> bytes32 \<Rightarrow> key_state" where
  "state_of s k =
     (if isValid (certificates s k) then Active
      else if issuer (certificates s k) \<noteq> 0 then Revoked
      else Unknown)"

text \<open>
  The invariant behind the statistics: the zero hash is never live, and
  \<open>totalCertificatesIssued\<close> exceeds \<open>totalCertificatesRevoked\<close> by the number of live
  certificates. The key type is finite, so the set of live keys has a cardinality.
\<close>

definition counted :: "contract \<Rightarrow> bool" where
  "counted s \<longleftrightarrow>
     \<not> isValid (certificates s 0) \<and>
     unat (totalCertificatesIssued s) =
       unat (totalCertificatesRevoked s) + card {k. isValid (certificates s k)}"

section \<open>The registry with counters and IPFS locators: src/unnamed/part_006\<close>

text \<open>
  The struct of this contract has the three fields of the one above and the IPFS
  content identifier.
\<close>

record CertificateIPFS = Certificate +
  ipfsCID :: string

datatype event_ipfs =
  CertificateIssued_ipfs bytes32 address string
  | CertificateRevoked_ipfs bytes32

record contract_ipfs =
  certificates_ipfs :: "bytes32 \<Rightarrow> CertificateIPFS"
  totalIssued :: uint256
  totalRevoked :: uint256
  emitted_ipfs :: "event_ipfs list"

definition zero_CertificateIPFS :: CertificateIPFS where
  "zero_CertificateIPFS = \<lparr>isValid = False, issuer = 0, issuedAt = 0, ipfsCID = []\<rparr>"

definition deployed_ipfs :: contract_ipfs where
  "deployed_ipfs = \<lparr>certificates_ipfs = (\<lambda>_. zero_CertificateIPFS), totalIssued = 0,
     totalRevoked = 0, emitted_ipfs = []\<rparr>"

subsection \<open>Modifiers\<close>

definition validHash_ipfs :: "bytes32 \<Rightarrow> (error + 'a) \<Rightarrow> (error + 'a)" where
  "validHash_ipfs certHash body = require (certHash \<noteq> 0) ''Invalid certificate hash'' body"

definition validCID :: "string \<Rightarrow> (error + 'a) \<Rightarrow> (error + 'a)" where
  "validCID cid body = require (length cid > 0) ''Invalid IPFS CID'' body"

definition certExists :: "contract_ipfs \<Rightarrow> bytes32 \<Rightarrow> (error + 'a) \<Rightarrow> (error + 'a)" where
  "certExists s certHash body =
     require (isValid (certificates_ipfs s certHash))
       ''Certificate does not exist or has been revoked'' body"

definition onlyIssuer_ipfs :: "contract_ipfs \<Rightarrow> msg \<Rightarrow> bytes32 \<Rightarrow> (error + 'a) \<Rightarrow> (error + 'a)" where
  "onlyIssuer_ipfs s m certHash body =
     require (issuer (certificates_ipfs s certHash) = sender m)
       ''Not authorized: only issuer can revoke'' body"

subsection \<open>Main functions\<close>

definition issueCertificate_ipfs ::
  "msg \<Rightarrow> bytes32 \<Rightarrow> string \<Rightarrow> contract_ipfs \<Rightarrow> error + contract_ipfs" where
  "issueCertificate_ipfs m certHash cid s =
     validHash_ipfs certHash
       (validCID cid
         (require (\<not> isValid (certificates_ipfs s certHash)) ''Certificate already issued''
           (require (issuer (certificates_ipfs s certHash) = 0)
              ''Certificate was previously issued''
              (let s1 = s\<lparr>certificates_ipfs := (certificates_ipfs s)
                          (certHash := \<lparr>isValid = True, issuer = sender m,
                                        issuedAt = timestamp m, ipfsCID = cid\<rparr>)\<rparr>
               in case checked_inc (totalIssued s1) of
                    Inl e \<Rightarrow> Inl e
                  | Inr n \<Rightarrow>
                      Inr (s1\<lparr>totalIssued := n,
                              emitted_ipfs := emitted_ipfs s1 @
                                [CertificateIssued_ipfs certHash (sender m) cid]\<rparr>)))))"

definition verifyCertificate_ipfs ::
  "contract_ipfs \<Rightarrow> bytes32 \<Rightarrow> error + (bool \<times> address \<times> uint256 \<times> string)" where
  "verifyCertificate_ipfs s certHash =
     validHash_ipfs certHash
       (let cert = certificates_ipfs s certHash
        in Inr (isValid cert, issuer cert, issuedAt cert, ipfsCID cert))"

definition revokeCertificate_ipfs :: "msg \<Rightarrow> bytes32 \<Rightarrow> contract_ipfs \<Rightarrow> error + contract_ipfs" where
  "revokeCertificate_ipfs m certHash s =
     validHash_ipfs certHash
       (certExists s certHash
         (onlyIssuer_ipfs s m certHash
            (let s1 = s\<lparr>certificates_ipfs := (certificates_ipfs s)
                        (certHash := (certificates_ipfs s certHash)\<lparr>isValid := False\<rparr>)\<rparr>
             in case checked_inc (totalRevoked s1) of
                  Inl e \<Rightarrow> Inl e
                | Inr n \<Rightarrow>
                    Inr (s1\<lparr>totalRevoked := n,
                            emitted_ipfs := emitted_ipfs s1 @
                              [CertificateRevoked_ipfs certHash]\<rparr>))))"

subsection \<open>Query functions\<close>

definition wasEverIssued :: "contract_ipfs \<Rightarrow> bytes32 \<Rightarrow> bool" where
  "wasEverIssued s certHash = (issuer (certificates_ipfs s certHash) \<noteq> 0)"

subsection \<open>Transactions\<close>

datatype call_ipfs = Issue_ipfs bytes32 string | Revoke_ipfs bytes32

fun call_result_ipfs :: "contract_ipfs \<Rightarrow> msg \<times> call_ipfs \<Rightarrow> error + contract_ipfs" where
  "call_result_ipfs s (m, Issue_ipfs k cid) = issueCertificate_ipfs m k cid s"
| "call_result_ipfs s (m, Revoke_ipfs k) = revokeCertificate_ipfs m k s"

definition exec_ipfs :: "contract_ipfs \<Rightarrow> msg \<times> call_ipfs \<Rightarrow> contract_ipfs" where
  "exec_ipfs s t = (case call_result_ipfs s t of Inl e \<Rightarrow> s | Inr s' \<Rightarrow> s')"

definition run_ipfs :: "contract_ipfs \<Rightarrow> (msg \<times> call_ipfs) list \<Rightarrow> contract_ipfs" where
  "run_ipfs s ts = foldl exec_ipfs s ts"

fun successes_ipfs ::
  "contract_ipfs \<Rightarrow> (msg \<times> call_ipfs) list \<Rightarrow> (msg \<times> call_ipfs) list" where
  "successes_ipfs s [] = []"
| "successes_ipfs s (t # ts) =
     (case call_result_ipfs s t of
        Inl e \<Rightarrow> successes_ipfs s ts
      | Inr s' \<Rightarrow> t # successes_ipfs s' ts)"

fun issues_key_ipfs :: "bytes32 \<Rightarrow> msg \<times> call_ipfs \<Rightarrow> bool" where
  "issues_key_ipfs k (m, Issue_ipfs j cid) = (j = k)"
| "issues_key_ipfs k (m, Revoke_ipfs j) = False"

section \<open>The registry that deletes on revocation: src/unnamed/part_005\<close>

text \<open>
  This contract has the struct and the events of the previous one and its modifiers
  \<open>validHash\<close> and \<open>validCID\<close> word for word; it keeps no counters, its
  \<open>verifyCertificate\<close> has no modifier, and its \<open>revokeCertificate\<close> deletes the record.
\<close>

record contract_del =
  certificates_del :: "bytes32 \<Rightarrow> CertificateIPFS"
  emitted_del :: "event_ipfs list"

definition deployed_del :: contract_del where
  "deployed_del = \<lparr>certificates_del = (\<lambda>_. zero_CertificateIPFS), emitted_del = []\<rparr>"

definition issueCertificate_del ::
  "msg \<Rightarrow> bytes32 \<Rightarrow> string \<Rightarrow> contract_del \<Rightarrow> error + contract_del" where
  "issueCertificate_del m certHash cid s =
     validHash_ipfs certHash
       (validCID cid
         (require (\<not> isValid (certificates_del s certHash)) ''Certificate already issued''
           (Inr (s\<lparr>certificates_del := (certificates_del s)
                     (certHash := \<lparr>isValid = True, issuer = sender m,
                                   issuedAt = timestamp m, ipfsCID = cid\<rparr>),
                   emitted_del := emitted_del s @
                     [CertificateIssued_ipfs certHash (sender m) cid]\<rparr>))))"

definition verifyCertificate_del ::
  "contract_del \<Rightarrow> bytes32 \<Rightarrow> bool \<times> address \<times> uint256 \<times> string" where
  "verifyCertificate_del s certHash =
     (let cert = certificates_del s certHash
      in (isValid cert, issuer cert, issuedAt cert, ipfsCID cert))"

text \<open>\<open>delete certificates[certHash]\<close> resets every field of the record to its zero value.\<close>

definition revokeCertificate_del :: "msg \<Rightarrow> bytes32 \<Rightarrow> contract_del \<Rightarrow> error + contract_del" where
  "revokeCertificate_del m certHash s =
     validHash_ipfs certHash
       (require (isValid (certificates_del s certHash)) ''Certificate does not exist''
         (require (issuer (certificates_del s certHash) = sender m) ''Not authorized''
           (Inr (s\<lparr>certificates_del := (certificates_del s)
                     (certHash := zero_CertificateIPFS),
                   emitted_del := emitted_del s @ [CertificateRevoked_ipfs certHash]\<rparr>))))"

definition getCertificateIssuer_del :: "contract_del \<Rightarrow> bytes32 \<Rightarrow> address" where
  "getCertificateIssuer_del s certHash = issuer (certificates_del s certHash)"

subsection \<open>Transactions\<close>

datatype call_del = Issue_del bytes32 string | Revoke_del bytes32

fun call_result_del :: "contract_del \<Rightarrow> msg \<times> call_del \<Rightarrow> error + contract_del" where
  "call_result_del s (m, Issue_del k cid) = issueCertificate_del m k cid s"
| "call_result_del s (m, Revoke_del k) = revokeCertificate_del m k s"

definition exec_del :: "contract_del \<Rightarrow> msg \<times> call_del \<Rightarrow> contract_del" where
  "exec_del s t = (case call_result_del s t of Inl e \<Rightarrow> s | Inr s' \<Rightarrow> s')"

definition run_del :: "contract_del \<Rightarrow> (msg \<times> call_del) list \<Rightarrow> contract_del" where
  "run_del s ts = foldl exec_del s ts"

fun successes_del ::
  "contract_del \<Rightarrow> (msg \<times> call_del) list \<Rightarrow> (msg \<times> call_del) list" where
  "successes_del s [] = []"
| "successes_del s (t # ts) =
     (case call_result_del s t of
        Inl e \<Rightarrow> successes_del s ts
      | Inr s' \<Rightarrow> t # successes_del s' ts)"

text \<open>The state of a key, read from its record as in the first contract.\<close>

definition state_of_del :: "contract_del \<Rightarrow> bytes32 \<Rightarrow> key_state" where
  "state_of_del s k =
     (if isValid (certificates_del s k) then Active
      else if issuer (certificates_del s k) \<noteq> 0 then Revoked
      else Unknown)"

section \<open>Key strings at the HTTP boundary: src/backend/mainserver.js\<close>

text \<open>
  \<open>hexToBytes32\<close> removes one leading \<open>0x\<close> and throws unless 64 characters are left.
  The thrown \<open>Error\<close> carries the length it found.
\<close>

datatype js_error = Invalid_hex_length nat

definition strip_0x :: "string \<Rightarrow> string" where
  "strip_0x hexString = (if take 2 hexString = ''0x'' then drop 2 hexString else hexString)"

definition hexToBytes32 :: "string \<Rightarrow> js_error + string" where
  "hexToBytes32 hexString =
     (let cleanHex = strip_0x hexString
      in if length cleanHex \<noteq> 64 then Inl (Invalid_hex_length (length cleanHex))
         else Inr (''0x'' @ cleanHex))"

text \<open>
  The test \<open>/^(0x)?[0-9a-fA-F]{64}$/.test(hash)\<close>: the whole string is 64 hexadecimal
  digits, or \<open>0x\<close> and 64 hexadecimal digits.
\<close>

definition is_hex_digit :: "char \<Rightarrow> bool" where
  "is_hex_digit c = (c \<in> set ''0123456789abcdefABCDEF'')"

definition hash_format_test :: "string \<Rightarrow> bool" where
  "hash_format_test h =
     ((length h = 64 \<and> list_all is_hex_digit h) \<or>
      (take 2 h = ''0x'' \<and> length (drop 2 h) = 64 \<and> list_all is_hex_digit (drop 2 h)))"

text \<open>
  What a handler does with a key string, up to its first call of the contract: it
  answers with a status and a message, or it calls \<open>contract.verifyCertificate\<close> with
  the string it has built. The first argument tells whether \<open>contract\<close> is initialised.
\<close>

datatype outcome = Respond nat string | Calls_verifyCertificate string

text \<open>\<open>GET /api/certificate/:hash\<close>.\<close>

definition get_certificate :: "bool \<Rightarrow> string \<Rightarrow> outcome" where
  "get_certificate contract_ready hash =
     (if \<not> contract_ready then Respond 503 ''Blockchain not initialized''
      else if \<not> hash_format_test hash then Respond 400 ''Invalid hash format''
      else case hexToBytes32 hash of
             Inl e \<Rightarrow> Respond 500 ''Failed to fetch certificate''
           | Inr bytes32Hash \<Rightarrow> Calls_verifyCertificate bytes32Hash)"

text \<open>
  \<open>POST /api/verify-qr\<close>, from the parsed QR payload on: \<open>qr_type\<close> and \<open>qr_hash\<close> are
  the fields \<open>type\<close> and \<open>hash\<close> of the JSON object, and an empty \<open>hash\<close> is falsy.
\<close>

definition verify_qr :: "bool \<Rightarrow> string \<Rightarrow> string \<Rightarrow> outcome" where
  "verify_qr contract_ready qr_type qr_hash =
     (if \<not> contract_ready then Respond 503 ''Blockchain not initialized''
      else if qr_type \<noteq> ''certificate'' then Respond 400 ''Invalid QR code format''
      else if qr_hash = [] then Respond 400 ''Invalid QR code format''
      else case hexToBytes32 qr_hash of
             Inl e \<Rightarrow> Respond 500 ''Failed to verify certificate''
           | Inr bytes32Hash \<Rightarrow> Calls_verifyCertificate bytes32Hash)"

section \<open>Basic facts\<close>

lemma issueCertificate_Inr:
  "issueCertificate m k s = Inr s' \<longleftrightarrow>
     k \<noteq> 0 \<and> \<not> isValid (certificates s k) \<and> issuer (certificates s k) = 0 \<and>
     totalCertificatesIssued s \<noteq> - 1 \<and>
     s' = s\<lparr>certificates := (certificates s)
               (k := \<lparr>isValid = True, issuer = sender m, issuedAt = timestamp m\<rparr>),
            totalCertificatesIssued := totalCertificatesIssued s + 1,
            emitted := emitted s @ [CertificateIssued k (sender m) (timestamp m)]\<rparr>"
  by (auto simp: issueCertificate_def validHash_def require_def checked_inc_def Let_def)

lemma revokeCertificate_Inr:
  "revokeCertificate m k s = Inr s' \<longleftrightarrow>
     k \<noteq> 0 \<and> isValid (certificates s k) \<and> issuer (certificates s k) = sender m \<and>
     totalCertificatesRevoked s \<noteq> - 1 \<and>
     s' = s\<lparr>certificates := (certificates s)
               (k := (certificates s k)\<lparr>isValid := False\<rparr>),
            totalCertificatesRevoked := totalCertificatesRevoked s + 1,
            emitted := emitted s @ [CertificateRevoked k (sender m) (timestamp m)]\<rparr>"
  by (auto simp: revokeCertificate_def validHash_def certificateExists_def onlyIssuer_def
      require_def checked_inc_def Let_def)

lemma exec_cases:
  "exec s (m, c) = s' \<Longrightarrow>
     s' = s \<or> (\<exists>k. c = Issue k \<and> issueCertificate m k s = Inr s') \<or>
     (\<exists>k. c = Revoke k \<and> revokeCertificate m k s = Inr s')"
  by (cases c) (auto simp: exec_def split: sum.splits)

lemma unat_succ: "(x :: uint256) \<noteq> - 1 \<Longrightarrow> unat (x + 1) = unat x + 1"
  using unatSuc [of x] by (simp add: eq_neg_iff_add_eq_0 add.commute)

section \<open>The counters count the live certificates\<close>

lemma counted_issue:
  assumes "counted s" "issueCertificate m k s = Inr s'"
  shows "counted s'"
proof -
  from assms(2) have k: "k \<noteq> 0" "\<not> isValid (certificates s k)"
    "totalCertificatesIssued s \<noteq> - 1"
    and s': "certificates s' = (certificates s)
               (k := \<lparr>isValid = True, issuer = sender m, issuedAt = timestamp m\<rparr>)"
    "totalCertificatesIssued s' = totalCertificatesIssued s + 1"
    "totalCertificatesRevoked s' = totalCertificatesRevoked s"
    by (simp_all add: issueCertificate_Inr)
  have "{j. isValid (certificates s' j)} = insert k {j. isValid (certificates s j)}"
    using s'(1) by auto
  moreover have "k \<notin> {j. isValid (certificates s j)}"
    using k by simp
  ultimately have "card {j. isValid (certificates s' j)} =
      Suc (card {j. isValid (certificates s j)})"
    by simp
  then show ?thesis
    using assms(1) k s' by (simp add: counted_def unat_succ)
qed

lemma counted_revoke:
  assumes "counted s" "revokeCertificate m k s = Inr s'"
  shows "counted s'"
proof -
  from assms(2) have k: "k \<noteq> 0" "isValid (certificates s k)"
    "totalCertificatesRevoked s \<noteq> - 1"
    and s': "certificates s' = (certificates s)(k := (certificates s k)\<lparr>isValid := False\<rparr>)"
    "totalCertificatesIssued s' = totalCertificatesIssued s"
    "totalCertificatesRevoked s' = totalCertificatesRevoked s + 1"
    by (simp_all add: revokeCertificate_Inr)
  have "{j. isValid (certificates s' j)} = {j. isValid (certificates s j)} - {k}"
    using s'(1) by auto
  moreover have "k \<in> {j. isValid (certificates s j)}"
    using k(2) by simp
  ultimately have "Suc (card {j. isValid (certificates s' j)}) =
      card {j. isValid (certificates s j)}"
    using card_Suc_Diff1 [of "{j. isValid (certificates s j)}" k] by simp
  then show ?thesis
    using assms(1) k s' by (simp add: counted_def unat_succ)
qed

lemma counted_exec: "counted s \<Longrightarrow> counted (exec s t)"
proof -
  assume c: "counted s"
  obtain m c where t: "t = (m, c)" by (cases t)
  from exec_cases [of s m c "exec s t"] t
  consider "exec s t = s" | k where "issueCertificate m k s = Inr (exec s t)"
    | k where "revokeCertificate m k s = Inr (exec s t)"
    by blast
  then show ?thesis
  proof cases
    case 1 with c show ?thesis by simp
  next
    case 2 with c show ?thesis by (rule counted_issue)
  next
    case 3 with c show ?thesis by (rule counted_revoke)
  qed
qed

lemma counted_run: "counted s \<Longrightarrow> counted (run s ts)"
  unfolding run_def by (induction ts arbitrary: s) (simp_all add: counted_exec)

lemma counted_deployed: "counted deployed"
  by (simp add: counted_def deployed_def zero_Certificate_def)

lemma counted_reachable: "counted (run deployed ts)"
  by (rule counted_run [OF counted_deployed])

section \<open>Basic facts of the contract that deletes on revocation\<close>

lemma run_del_Nil: "run_del s [] = s"
  by (simp add: run_del_def)

lemma run_del_Cons: "run_del s (t # ts) = run_del (exec_del s t) ts"
  by (simp add: run_del_def)

lemma revokeCertificate_del_Inr:
  "revokeCertificate_del m k s = Inr s' \<longleftrightarrow>
     k \<noteq> 0 \<and> isValid (certificates_del s k) \<and> issuer (certificates_del s k) = sender m \<and>
     s' = s\<lparr>certificates_del := (certificates_del s)(k := zero_CertificateIPFS),
            emitted_del := emitted_del s @ [CertificateRevoked_ipfs k]\<rparr>"
  by (auto simp: revokeCertificate_del_def validHash_ipfs_def require_def)

lemma issueCertificate_del_Inr:
  "issueCertificate_del m k cid s = Inr s' \<longleftrightarrow>
     k \<noteq> 0 \<and> cid \<noteq> [] \<and> \<not> isValid (certificates_del s k) \<and>
     s' = s\<lparr>certificates_del := (certificates_del s)
               (k := \<lparr>isValid = True, issuer = sender m, issuedAt = timestamp m,
                      ipfsCID = cid\<rparr>),
            emitted_del := emitted_del s @ [CertificateIssued_ipfs k (sender m) cid]\<rparr>"
  by (auto simp: issueCertificate_del_def validHash_ipfs_def validCID_def require_def)

lemmas delete_eval =
  run_del_Cons run_del_Nil exec_del_def
  issueCertificate_del_def revokeCertificate_del_def verifyCertificate_del_def
  getCertificateIssuer_del_def validHash_ipfs_def validCID_def require_def
  zero_CertificateIPFS_def deployed_del_def state_of_del_def Let_def

section \<open>Counters and statistics\<close>

lemma counted_le:
  "counted s \<Longrightarrow> unat (totalCertificatesRevoked s) \<le> unat (totalCertificatesIssued s)"
  by (simp add: counted_def)

lemma counted_statistics:
  assumes "counted s"
  shows "getStatistics s = Inr (totalCertificatesIssued s, totalCertificatesRevoked s,
           totalCertificatesIssued s - totalCertificatesRevoked s)"
    and "unat (totalCertificatesIssued s - totalCertificatesRevoked s) =
           card {k. isValid (certificates s k)}"
proof -
  have le: "totalCertificatesRevoked s \<le> totalCertificatesIssued s"
    using counted_le [OF assms] by (simp add: word_le_nat_alt)
  then show "getStatistics s = Inr (totalCertificatesIssued s, totalCertificatesRevoked s,
           totalCertificatesIssued s - totalCertificatesRevoked s)"
    by (simp add: getStatistics_def checked_sub_def)
  show "unat (totalCertificatesIssued s - totalCertificatesRevoked s) =
           card {k. isValid (certificates s k)}"
    using le assms by (simp add: unat_sub counted_def)
qed

lemma issue_counters:
  "issueCertificate m k s = Inr s' \<Longrightarrow>
     unat (totalCertificatesIssued s') = unat (totalCertificatesIssued s) + 1 \<and>
     totalCertificatesRevoked s' = totalCertificatesRevoked s"
  by (simp add: issueCertificate_Inr unat_succ)

lemma revoke_counters:
  "revokeCertificate m k s = Inr s' \<Longrightarrow>
     unat (totalCertificatesRevoked s') = unat (totalCertificatesRevoked s) + 1 \<and>
     totalCertificatesIssued s' = totalCertificatesIssued s"
  by (simp add: revokeCertificate_Inr unat_succ)

lemma issued_after_exec:
  "unat (totalCertificatesIssued (exec s t)) =
     unat (totalCertificatesIssued s) + (if is_Issue t \<and> succeeds s t then 1 else 0)"
proof (cases t)
  case (Pair m c)
  show ?thesis
  proof (cases c)
    case (Issue k)
    show ?thesis
    proof (cases "issueCertificate m k s")
      case (Inl e)
      then show ?thesis using Pair Issue by (simp add: exec_def succeeds_def)
    next
      case (Inr s')
      then show ?thesis using Pair Issue issue_counters [OF Inr]
        by (simp add: exec_def succeeds_def)
    qed
  next
    case (Revoke k)
    show ?thesis
    proof (cases "revokeCertificate m k s")
      case (Inl e)
      then show ?thesis using Pair Revoke by (simp add: exec_def succeeds_def)
    next
      case (Inr s')
      then show ?thesis using Pair Revoke revoke_counters [OF Inr]
        by (simp add: exec_def succeeds_def)
    qed
  qed
qed

lemma revoked_after_exec:
  "unat (totalCertificatesRevoked (exec s t)) =
     unat (totalCertificatesRevoked s) + (if is_Revoke t \<and> succeeds s t then 1 else 0)"
proof (cases t)
  case (Pair m c)
  show ?thesis
  proof (cases c)
    case (Issue k)
    show ?thesis
    proof (cases "issueCertificate m k s")
      case (Inl e)
      then show ?thesis using Pair Issue by (simp add: exec_def succeeds_def)
    next
      case (Inr s')
      then show ?thesis using Pair Issue issue_counters [OF Inr]
        by (simp add: exec_def succeeds_def)
    qed
  next
    case (Revoke k)
    show ?thesis
    proof (cases "revokeCertificate m k s")
      case (Inl e)
      then show ?thesis using Pair Revoke by (simp add: exec_def succeeds_def)
    next
      case (Inr s')
      then show ?thesis using Pair Revoke revoke_counters [OF Inr]
        by (simp add: exec_def succeeds_def)
    qed
  qed
qed

lemma run_Nil: "run s [] = s"
  by (simp add: run_def)

lemma run_Cons: "run s (t # ts) = run (exec s t) ts"
  by (simp add: run_def)

lemma live_nonzero: "counted s \<Longrightarrow> isValid (certificates s k) \<Longrightarrow> k \<noteq> 0"
  by (auto simp: counted_def)

lemma state_of_Active: "state_of s k = Active \<longleftrightarrow> isValid (certificates s k)"
  by (simp add: state_of_def)

lemma state_of_Revoked:
  "state_of s k = Revoked \<longleftrightarrow> \<not> isValid (certificates s k) \<and> issuer (certificates s k) \<noteq> 0"
  by (simp add: state_of_def)

lemma state_of_Unknown:
  "state_of s k = Unknown \<longleftrightarrow> \<not> isValid (certificates s k) \<and> issuer (certificates s k) = 0"
  by (simp add: state_of_def)

text \<open>The equations that evaluate the contract on a given sequence of transactions.\<close>

lemmas registry_eval =
  run_Cons run_Nil exec_def from_accounts_def
  issueCertificate_def revokeCertificate_def verifyCertificate_def getCertificateDetails_def
  validHash_def certificateExists_def onlyIssuer_def require_def checked_inc_def
  deployed_def zero_Certificate_def state_of_def Let_def

text \<open>
  C9. In every state the deployed contract can reach, \<open>totalCertificatesRevoked\<close> is at
  most \<open>totalCertificatesIssued\<close>: the difference of the two is the number of live
  certificates, each revocation having taken one live certificate away. So the checked
  subtraction of \<open>getStatistics\<close> never underflows, and \<open>getStatistics\<close> returns.
\<close>

theorem statistics_never_underflow:
  "unat (totalCertificatesRevoked (run deployed ts)) \<le>
     unat (totalCertificatesIssued (run deployed ts)) \<and>
   unat (totalCertificatesIssued (run deployed ts)) =
     unat (totalCertificatesRevoked (run deployed ts)) +
       card {k. isValid (certificates (run deployed ts) k)} \<and>
   getStatistics (run deployed ts) =
     Inr (totalCertificatesIssued (run deployed ts), totalCertificatesRevoked (run deployed ts),
          totalCertificatesIssued (run deployed ts) - totalCertificatesRevoked (run deployed ts))"
  using counted_reachable [of ts] counted_statistics(1) [of "run deployed ts"]
  by (simp add: counted_def)

text \<open>
  C3. In every reachable state and for every transaction \<open>t\<close>: \<open>totalCertificatesIssued\<close>
  grows by exactly one when \<open>t\<close> is an issuance that succeeds and stays as it is
  otherwise; \<open>totalCertificatesRevoked\<close> grows by exactly one when \<open>t\<close> is a revocation
  that succeeds and stays as it is otherwise (the values are read as numbers, so the
  counters do not wrap and never decrease); and \<open>getStatistics\<close> returns the two
  counters and their difference as the number of active certificates.
\<close>

theorem counters_follow_successes:
  "unat (totalCertificatesIssued (exec (run deployed ts) t)) =
     unat (totalCertificatesIssued (run deployed ts)) +
       (if is_Issue t \<and> succeeds (run deployed ts) t then 1 else 0) \<and>
   unat (totalCertificatesRevoked (exec (run deployed ts) t)) =
     unat (totalCertificatesRevoked (run deployed ts)) +
       (if is_Revoke t \<and> succeeds (run deployed ts) t then 1 else 0) \<and>
   getStatistics (run deployed ts) =
     Inr (totalCertificatesIssued (run deployed ts), totalCertificatesRevoked (run deployed ts),
          totalCertificatesIssued (run deployed ts) - totalCertificatesRevoked (run deployed ts)) \<and>
   unat (totalCertificatesIssued (run deployed ts) - totalCertificatesRevoked (run deployed ts)) =
     unat (totalCertificatesIssued (run deployed ts)) -
       unat (totalCertificatesRevoked (run deployed ts))"
  using counted_reachable [of ts] counted_statistics [of "run deployed ts"]
    issued_after_exec [of "run deployed ts" t] revoked_after_exec [of "run deployed ts" t]
  by (simp add: counted_def)

section \<open>Failed calls\<close>

text \<open>
  C4. For a key whose certificate is live in a reachable state, \<open>issueCertificate\<close>
  fails with \<open>Certificate already issued\<close>, whoever calls it, and the transaction leaves
  the whole state (the record of the key and both counters with it) as it was.
\<close>

theorem second_issue_fails:
  "state_of (run deployed ts) k = Active \<Longrightarrow>
     issueCertificate m k (run deployed ts) = Inl (Revert ''Certificate already issued'') \<and>
     exec (run deployed ts) (m, Issue k) = run deployed ts"
proof -
  assume a: "state_of (run deployed ts) k = Active"
  then have v: "isValid (certificates (run deployed ts) k)"
    by (simp add: state_of_Active)
  then have "k \<noteq> 0"
    using live_nonzero [OF counted_reachable] by blast
  with v have "issueCertificate m k (run deployed ts) = Inl (Revert ''Certificate already issued'')"
    by (simp add: issueCertificate_def validHash_def require_def)
  then show ?thesis by (simp add: exec_def)
qed

theorem second_issue_fails_witness:
  "state_of (run deployed [(\<lparr>sender = 1, timestamp = 100\<rparr>, Issue 7)]) 7 = Active \<and>
   issueCertificate \<lparr>sender = 2, timestamp = 200\<rparr> 7
       (run deployed [(\<lparr>sender = 1, timestamp = 100\<rparr>, Issue 7)]) =
     Inl (Revert ''Certificate already issued'') \<and>
   exec (run deployed [(\<lparr>sender = 1, timestamp = 100\<rparr>, Issue 7)])
       (\<lparr>sender = 2, timestamp = 200\<rparr>, Issue 7) =
     run deployed [(\<lparr>sender = 1, timestamp = 100\<rparr>, Issue 7)]"
proof -
  have h: "state_of (run deployed [(\<lparr>sender = 1, timestamp = 100\<rparr>, Issue 7)]) 7 = Active"
    by (simp add: registry_eval)
  show ?thesis
    using h second_issue_fails [OF h, of "\<lparr>sender = 2, timestamp = 200\<rparr>"] by simp
qed

text \<open>
  C5. For a key whose certificate is live in a reachable state and was issued by \<open>A\<close>,
  \<open>revokeCertificate\<close> called by anyone but \<open>A\<close> fails with \<open>Not authorized: only the
  issuer can revoke this certificate\<close>, and the transaction leaves the whole state as it
  was.
\<close>

theorem revoke_by_other_fails:
  "state_of (run deployed ts) k = Active \<Longrightarrow>
   issuer (certificates (run deployed ts) k) = A \<Longrightarrow> sender m \<noteq> A \<Longrightarrow>
     revokeCertificate m k (run deployed ts) =
       Inl (Revert ''Not authorized: only the issuer can revoke this certificate'') \<and>
     exec (run deployed ts) (m, Revoke k) = run deployed ts"
proof -
  assume a: "state_of (run deployed ts) k = Active"
    and b: "issuer (certificates (run deployed ts) k) = A" and c: "sender m \<noteq> A"
  from a have v: "isValid (certificates (run deployed ts) k)"
    by (simp add: state_of_Active)
  then have "k \<noteq> 0"
    using live_nonzero [OF counted_reachable] by blast
  with v b c have "revokeCertificate m k (run deployed ts) =
       Inl (Revert ''Not authorized: only the issuer can revoke this certificate'')"
    by (auto simp: revokeCertificate_def validHash_def certificateExists_def onlyIssuer_def
        require_def)
  then show ?thesis by (simp add: exec_def)
qed

theorem revoke_by_other_fails_witness:
  "state_of (run deployed [(\<lparr>sender = 1, timestamp = 100\<rparr>, Issue 7)]) 7 = Active \<and>
   issuer (certificates (run deployed [(\<lparr>sender = 1, timestamp = 100\<rparr>, Issue 7)]) 7) = 1 \<and>
   sender \<lparr>sender = 2, timestamp = 200\<rparr> \<noteq> 1 \<and>
   revokeCertificate \<lparr>sender = 2, timestamp = 200\<rparr> 7
       (run deployed [(\<lparr>sender = 1, timestamp = 100\<rparr>, Issue 7)]) =
     Inl (Revert ''Not authorized: only the issuer can revoke this certificate'') \<and>
   exec (run deployed [(\<lparr>sender = 1, timestamp = 100\<rparr>, Issue 7)])
       (\<lparr>sender = 2, timestamp = 200\<rparr>, Revoke 7) =
     run deployed [(\<lparr>sender = 1, timestamp = 100\<rparr>, Issue 7)]"
proof -
  have h1: "state_of (run deployed [(\<lparr>sender = 1, timestamp = 100\<rparr>, Issue 7)]) 7 = Active"
    by (simp add: registry_eval)
  have h2: "issuer (certificates (run deployed [(\<lparr>sender = 1, timestamp = 100\<rparr>, Issue 7)]) 7) = 1"
    by (simp add: registry_eval)
  have h3: "sender \<lparr>sender = 2, timestamp = 200\<rparr> \<noteq> 1"
    by simp
  show ?thesis
    using h1 h2 h3 revoke_by_other_fails [OF h1 h2 h3] by simp
qed

lemma revoke_not_live:
  "k \<noteq> 0 \<Longrightarrow> \<not> isValid (certificates s k) \<Longrightarrow>
     revokeCertificate m k s = Inl (Revert ''Certificate does not exist or has been revoked'')"
  by (simp add: revokeCertificate_def validHash_def certificateExists_def require_def)

lemma revoke_not_issuer:
  "k \<noteq> 0 \<Longrightarrow> isValid (certificates s k) \<Longrightarrow> issuer (certificates s k) \<noteq> sender m \<Longrightarrow>
     revokeCertificate m k s =
       Inl (Revert ''Not authorized: only the issuer can revoke this certificate'')"
  by (simp add: revokeCertificate_def validHash_def certificateExists_def onlyIssuer_def
      require_def)


text \<open>
  C6. \<open>revokeCertificate\<close> does not tell a key that was never issued from one that was
  revoked: \<open>certificateExists\<close> tests \<open>isValid\<close> alone and fails with one message,
  \<open>Certificate does not exist or has been revoked\<close>, in both states. Below, key 7 is
  unknown in the deployed state and revoked after an issuance and a revocation, and the
  two calls fail with the same error.
\<close>

theorem revoke_errors_counterexample:
  "state_of deployed 7 = Unknown \<and>
   state_of (run deployed [(\<lparr>sender = 1, timestamp = 100\<rparr>, Issue 7),
                           (\<lparr>sender = 1, timestamp = 150\<rparr>, Revoke 7)]) 7 = Revoked \<and>
   revokeCertificate \<lparr>sender = 1, timestamp = 200\<rparr> 7 deployed =
     Inl (Revert ''Certificate does not exist or has been revoked'') \<and>
   revokeCertificate \<lparr>sender = 1, timestamp = 200\<rparr> 7
       (run deployed [(\<lparr>sender = 1, timestamp = 100\<rparr>, Issue 7),
                      (\<lparr>sender = 1, timestamp = 150\<rparr>, Revoke 7)]) =
     Inl (Revert ''Certificate does not exist or has been revoked'')"
  by (simp add: registry_eval)


text \<open>
  C6, as the contract has it. For every non-zero key, \<open>revokeCertificate\<close> fails with
  \<open>Certificate does not exist or has been revoked\<close> when the key is unknown and when it
  is revoked, and with \<open>Not authorized: only the issuer can revoke this certificate\<close>
  when the certificate is live and the caller is not its issuer; the two errors differ.
\<close>

theorem revoke_errors:
  "k \<noteq> 0 \<Longrightarrow>
     (state_of s k = Unknown \<or> state_of s k = Revoked \<longrightarrow>
        revokeCertificate m k s =
          Inl (Revert ''Certificate does not exist or has been revoked'')) \<and>
     (state_of s k = Active \<and> issuer (certificates s k) \<noteq> sender m \<longrightarrow>
        revokeCertificate m k s =
          Inl (Revert ''Not authorized: only the issuer can revoke this certificate'')) \<and>
     Revert ''Certificate does not exist or has been revoked'' \<noteq>
       Revert ''Not authorized: only the issuer can revoke this certificate''"
  using revoke_not_live [of k s m] revoke_not_issuer [of k s m]
  by (auto simp: state_of_def split: if_splits)


theorem revoke_errors_witness:
  "(7 :: bytes32) \<noteq> 0 \<and> state_of deployed 7 = Unknown \<and>
   revokeCertificate \<lparr>sender = 2, timestamp = 200\<rparr> 7 deployed =
     Inl (Revert ''Certificate does not exist or has been revoked'') \<and>
   state_of (run deployed [(\<lparr>sender = 1, timestamp = 100\<rparr>, Issue 7)]) 7 = Active \<and>
   issuer (certificates (run deployed [(\<lparr>sender = 1, timestamp = 100\<rparr>, Issue 7)]) 7) \<noteq>
     sender \<lparr>sender = 2, timestamp = 200\<rparr> \<and>
   revokeCertificate \<lparr>sender = 2, timestamp = 200\<rparr> 7
       (run deployed [(\<lparr>sender = 1, timestamp = 100\<rparr>, Issue 7)]) =
     Inl (Revert ''Not authorized: only the issuer can revoke this certificate'')"
proof -
  let ?i = "(\<lparr>sender = 1, timestamp = 100\<rparr>, Issue 7) :: msg \<times> call"
  have h1: "(7 :: bytes32) \<noteq> 0" by simp
  have h2: "state_of deployed 7 = Unknown" by (simp add: registry_eval)
  have h3: "state_of (run deployed [?i]) 7 = Active" by (simp add: registry_eval)
  have h4: "issuer (certificates (run deployed [?i]) 7) \<noteq> sender \<lparr>sender = 2, timestamp = 200\<rparr>"
    by (simp add: registry_eval)
  show ?thesis
    using h1 h2 h3 h4
      revoke_errors [OF h1, of deployed "\<lparr>sender = 2, timestamp = 200\<rparr>"]
      revoke_errors [OF h1, of "run deployed [?i]" "\<lparr>sender = 2, timestamp = 200\<rparr>"]
    by simp
qed

section \<open>Revocation keeps the record\<close>

lemma issue_then_revoke:
  assumes i: "issueCertificate mA k s = Inr s1"
    and r: "revokeCertificate mR k s1 = Inr s2"
  shows "sender mR = sender mA"
    and "verifyCertificate s1 k = Inr (True, sender mA, timestamp mA)"
    and "verifyCertificate s2 k = Inr (False, sender mA, timestamp mA)"
    and "getCertificateDetails s2 k = (False, sender mA, timestamp mA, sender mA \<noteq> 0)"
    and "unat (totalCertificatesRevoked s2) = unat (totalCertificatesRevoked s1) + 1"
    and "totalCertificatesIssued s2 = totalCertificatesIssued s1"
    and "certificates s2 = (certificates s1)(k := (certificates s1 k)\<lparr>isValid := False\<rparr>)"
proof -
  from i have k: "k \<noteq> 0"
    and c1: "certificates s1 k = \<lparr>isValid = True, issuer = sender mA, issuedAt = timestamp mA\<rparr>"
    by (simp_all add: issueCertificate_Inr)
  from r have c2: "certificates s2 = (certificates s1)(k := (certificates s1 k)\<lparr>isValid := False\<rparr>)"
    and a: "issuer (certificates s1 k) = sender mR"
    by (simp_all add: revokeCertificate_Inr)
  show "sender mR = sender mA" using a c1 by simp
  show "verifyCertificate s1 k = Inr (True, sender mA, timestamp mA)"
    using k c1 by (simp add: verifyCertificate_def validHash_def require_def)
  show "verifyCertificate s2 k = Inr (False, sender mA, timestamp mA)"
    using k c1 c2 by (simp add: verifyCertificate_def validHash_def require_def)
  show "getCertificateDetails s2 k = (False, sender mA, timestamp mA, sender mA \<noteq> 0)"
    using c1 c2 by (simp add: getCertificateDetails_def)
  show "unat (totalCertificatesRevoked s2) = unat (totalCertificatesRevoked s1) + 1"
    and "totalCertificatesIssued s2 = totalCertificatesIssued s1"
    using revoke_counters [OF r] by simp_all
  show "certificates s2 = (certificates s1)(k := (certificates s1 k)\<lparr>isValid := False\<rparr>)"
    by (rule c2)
qed


text \<open>
  In a reachable state the issuer's revocation of a certificate just issued goes through:
  the counter of revocations is below the counter of issuances, so it cannot overflow.
\<close>

lemma issuer_can_revoke:
  assumes i: "issueCertificate mA k (run deployed ts) = Inr s1" and a: "sender mR = sender mA"
  shows "\<exists>s2. revokeCertificate mR k s1 = Inr s2"
proof -
  have c: "counted s1"
    using counted_issue [OF counted_reachable i] .
  from i have k: "k \<noteq> 0" "isValid (certificates s1 k)" "issuer (certificates s1 k) = sender mA"
    by (simp_all add: issueCertificate_Inr)
  have "k \<in> {j. isValid (certificates s1 j)}" using k by simp
  then have "card {j. isValid (certificates s1 j)} > 0"
    using card_gt_0_iff [of "{j. isValid (certificates s1 j)}"] by auto
  then have "unat (totalCertificatesRevoked s1) < unat (totalCertificatesIssued s1)"
    using c by (simp add: counted_def)
  moreover have "unat (totalCertificatesIssued s1) \<le> unat (- 1 :: uint256)"
    using word_le_nat_alt [of "totalCertificatesIssued s1" "- 1"] by simp
  ultimately have "totalCertificatesRevoked s1 \<noteq> - 1"
    by auto
  then show ?thesis
    using k a by (simp add: revokeCertificate_Inr)
qed


subsection \<open>The same for the contract with IPFS locators\<close>

lemma run_ipfs_Nil: "run_ipfs s [] = s"
  by (simp add: run_ipfs_def)

lemma run_ipfs_Cons: "run_ipfs s (t # ts) = run_ipfs (exec_ipfs s t) ts"
  by (simp add: run_ipfs_def)

lemma issueCertificate_ipfs_Inr:
  "issueCertificate_ipfs m k cid s = Inr s' \<longleftrightarrow>
     k \<noteq> 0 \<and> cid \<noteq> [] \<and> \<not> isValid (certificates_ipfs s k) \<and>
     issuer (certificates_ipfs s k) = 0 \<and> totalIssued s \<noteq> - 1 \<and>
     s' = s\<lparr>certificates_ipfs := (certificates_ipfs s)
               (k := \<lparr>isValid = True, issuer = sender m, issuedAt = timestamp m,
                      ipfsCID = cid\<rparr>),
            totalIssued := totalIssued s + 1,
            emitted_ipfs := emitted_ipfs s @ [CertificateIssued_ipfs k (sender m) cid]\<rparr>"
  by (auto simp: issueCertificate_ipfs_def validHash_ipfs_def validCID_def require_def
      checked_inc_def Let_def)

lemma revokeCertificate_ipfs_Inr:
  "revokeCertificate_ipfs m k s = Inr s' \<longleftrightarrow>
     k \<noteq> 0 \<and> isValid (certificates_ipfs s k) \<and> issuer (certificates_ipfs s k) = sender m \<and>
     totalRevoked s \<noteq> - 1 \<and>
     s' = s\<lparr>certificates_ipfs := (certificates_ipfs s)
               (k := (certificates_ipfs s k)\<lparr>isValid := False\<rparr>),
            totalRevoked := totalRevoked s + 1,
            emitted_ipfs := emitted_ipfs s @ [CertificateRevoked_ipfs k]\<rparr>"
  by (auto simp: revokeCertificate_ipfs_def validHash_ipfs_def certExists_def
      onlyIssuer_ipfs_def require_def checked_inc_def Let_def)


lemmas ipfs_eval =
  run_ipfs_Cons run_ipfs_Nil exec_ipfs_def
  issueCertificate_ipfs_def revokeCertificate_ipfs_def verifyCertificate_ipfs_def
  validHash_ipfs_def validCID_def certExists_def onlyIssuer_ipfs_def require_def
  checked_inc_def deployed_ipfs_def zero_CertificateIPFS_def wasEverIssued_def Let_def


lemma issue_then_revoke_ipfs:
  assumes i: "issueCertificate_ipfs mA k cid s = Inr s1"
    and r: "revokeCertificate_ipfs mR k s1 = Inr s2"
  shows "sender mR = sender mA"
    and "verifyCertificate_ipfs s1 k = Inr (True, sender mA, timestamp mA, cid)"
    and "verifyCertificate_ipfs s2 k = Inr (False, sender mA, timestamp mA, cid)"
    and "wasEverIssued s2 k = (sender mA \<noteq> 0)"
    and "unat (totalRevoked s2) = unat (totalRevoked s1) + 1"
    and "totalIssued s2 = totalIssued s1"
    and "certificates_ipfs s2 =
           (certificates_ipfs s1)(k := (certificates_ipfs s1 k)\<lparr>isValid := False\<rparr>)"
proof -
  from i have k: "k \<noteq> 0"
    and c1: "certificates_ipfs s1 k =
      \<lparr>isValid = True, issuer = sender mA, issuedAt = timestamp mA, ipfsCID = cid\<rparr>"
    by (simp_all add: issueCertificate_ipfs_Inr)
  from r have c2: "certificates_ipfs s2 =
      (certificates_ipfs s1)(k := (certificates_ipfs s1 k)\<lparr>isValid := False\<rparr>)"
    and a: "issuer (certificates_ipfs s1 k) = sender mR"
    and n: "totalRevoked s1 \<noteq> - 1" "totalRevoked s2 = totalRevoked s1 + 1"
      "totalIssued s2 = totalIssued s1"
    by (simp_all add: revokeCertificate_ipfs_Inr)
  show "sender mR = sender mA" using a c1 by simp
  show "verifyCertificate_ipfs s1 k = Inr (True, sender mA, timestamp mA, cid)"
    using k c1 by (simp add: verifyCertificate_ipfs_def validHash_ipfs_def require_def)
  show "verifyCertificate_ipfs s2 k = Inr (False, sender mA, timestamp mA, cid)"
    using k c1 c2 by (simp add: verifyCertificate_ipfs_def validHash_ipfs_def require_def)
  show "wasEverIssued s2 k = (sender mA \<noteq> 0)"
    using c1 c2 by (simp add: wasEverIssued_def)
  show "unat (totalRevoked s2) = unat (totalRevoked s1) + 1"
    using n by (simp add: unat_succ)
  show "totalIssued s2 = totalIssued s1"
    using n by simp
  show "certificates_ipfs s2 =
      (certificates_ipfs s1)(k := (certificates_ipfs s1 k)\<lparr>isValid := False\<rparr>)"
    by (rule c2)
qed


text \<open>
  C2. Revocation does not keep the record in every registry of the repository. In the
  contract of src/unnamed/part_005, after key 7 is issued by address 1 and revoked by
  address 1, \<open>verifyCertificate\<close> returns the zero record: the issuer, the timestamp and
  the locator of the issuance are gone.
\<close>

theorem revoke_keeps_history_counterexample:
  "successes_del deployed_del
     [(\<lparr>sender = 1, timestamp = 100\<rparr>, Issue_del 7 ''Qm1''),
      (\<lparr>sender = 1, timestamp = 150\<rparr>, Revoke_del 7)] =
     [(\<lparr>sender = 1, timestamp = 100\<rparr>, Issue_del 7 ''Qm1''),
      (\<lparr>sender = 1, timestamp = 150\<rparr>, Revoke_del 7)] \<and>
   verifyCertificate_del (run_del deployed_del
     [(\<lparr>sender = 1, timestamp = 100\<rparr>, Issue_del 7 ''Qm1'')]) 7 = (True, 1, 100, ''Qm1'') \<and>
   verifyCertificate_del (run_del deployed_del
     [(\<lparr>sender = 1, timestamp = 100\<rparr>, Issue_del 7 ''Qm1''),
      (\<lparr>sender = 1, timestamp = 150\<rparr>, Revoke_del 7)]) 7 = (False, 0, 0, [])"
  by (simp add: delete_eval)

text \<open>
  C2, for the contracts that keep counters. When \<open>issueCertificate\<close> called by a
  non-zero address \<open>A\<close> succeeds and a \<open>revokeCertificate\<close> of the same key succeeds on
  the resulting state, the revoking caller is \<open>A\<close>, and only the validity flag of the
  record has changed: \<open>verifyCertificate\<close> returns \<open>false\<close> with the issuer and the
  timestamp of the issuance, the key still counts as ever issued, the counter of
  revocations has grown by exactly one and the counter of issuances is as it was.
  src/CertificateVerificationQR.sol stores no locator; in the contract of
  src/unnamed/part_006 \<open>verifyCertificate\<close> also returns the locator given at the issuance.
\<close>

theorem revoke_keeps_history:
  "(issueCertificate mA k s = Inr s1 \<and> revokeCertificate mR k s1 = Inr s2 \<and>
      sender mA \<noteq> 0 \<longrightarrow>
        sender mR = sender mA \<and>
        verifyCertificate s1 k = Inr (True, sender mA, timestamp mA) \<and>
        verifyCertificate s2 k = Inr (False, sender mA, timestamp mA) \<and>
        getCertificateDetails s2 k = (False, sender mA, timestamp mA, True) \<and>
        unat (totalCertificatesRevoked s2) = unat (totalCertificatesRevoked s1) + 1 \<and>
        totalCertificatesIssued s2 = totalCertificatesIssued s1 \<and>
        certificates s2 = (certificates s1)(k := (certificates s1 k)\<lparr>isValid := False\<rparr>)) \<and>
   (issueCertificate_ipfs mA k L u = Inr u1 \<and> revokeCertificate_ipfs mR k u1 = Inr u2 \<and>
      sender mA \<noteq> 0 \<longrightarrow>
        sender mR = sender mA \<and>
        verifyCertificate_ipfs u1 k = Inr (True, sender mA, timestamp mA, L) \<and>
        verifyCertificate_ipfs u2 k = Inr (False, sender mA, timestamp mA, L) \<and>
        wasEverIssued u2 k \<and>
        unat (totalRevoked u2) = unat (totalRevoked u1) + 1 \<and>
        totalIssued u2 = totalIssued u1 \<and>
        certificates_ipfs u2 =
          (certificates_ipfs u1)(k := (certificates_ipfs u1 k)\<lparr>isValid := False\<rparr>))"
proof (intro conjI impI)
  assume h: "issueCertificate mA k s = Inr s1 \<and> revokeCertificate mR k s1 = Inr s2 \<and>
      sender mA \<noteq> 0"
  then have i: "issueCertificate mA k s = Inr s1" and r: "revokeCertificate mR k s1 = Inr s2"
    and z: "sender mA \<noteq> 0" by simp_all
  note f = issue_then_revoke [OF i r]
  show "sender mR = sender mA" by (rule f(1))
  show "verifyCertificate s1 k = Inr (True, sender mA, timestamp mA)" by (rule f(2))
  show "verifyCertificate s2 k = Inr (False, sender mA, timestamp mA)" by (rule f(3))
  show "getCertificateDetails s2 k = (False, sender mA, timestamp mA, True)"
    using f(4) z by simp
  show "unat (totalCertificatesRevoked s2) = unat (totalCertificatesRevoked s1) + 1"
    by (rule f(5))
  show "totalCertificatesIssued s2 = totalCertificatesIssued s1" by (rule f(6))
  show "certificates s2 = (certificates s1)(k := (certificates s1 k)\<lparr>isValid := False\<rparr>)"
    by (rule f(7))
next
  assume h: "issueCertificate_ipfs mA k L u = Inr u1 \<and>
      revokeCertificate_ipfs mR k u1 = Inr u2 \<and> sender mA \<noteq> 0"
  then have i: "issueCertificate_ipfs mA k L u = Inr u1"
    and r: "revokeCertificate_ipfs mR k u1 = Inr u2"
    and z: "sender mA \<noteq> 0" by simp_all
  note f = issue_then_revoke_ipfs [OF i r]
  show "sender mR = sender mA" by (rule f(1))
  show "verifyCertificate_ipfs u1 k = Inr (True, sender mA, timestamp mA, L)" by (rule f(2))
  show "verifyCertificate_ipfs u2 k = Inr (False, sender mA, timestamp mA, L)" by (rule f(3))
  show "wasEverIssued u2 k" using f(4) z by simp
  show "unat (totalRevoked u2) = unat (totalRevoked u1) + 1" by (rule f(5))
  show "totalIssued u2 = totalIssued u1" by (rule f(6))
  show "certificates_ipfs u2 =
      (certificates_ipfs u1)(k := (certificates_ipfs u1 k)\<lparr>isValid := False\<rparr>)"
    by (rule f(7))
qed


theorem revoke_keeps_history_witness:
  "issueCertificate \<lparr>sender = 1, timestamp = 100\<rparr> 7 deployed =
     Inr (run deployed [(\<lparr>sender = 1, timestamp = 100\<rparr>, Issue 7)]) \<and>
   revokeCertificate \<lparr>sender = 1, timestamp = 150\<rparr> 7
       (run deployed [(\<lparr>sender = 1, timestamp = 100\<rparr>, Issue 7)]) =
     Inr (run deployed [(\<lparr>sender = 1, timestamp = 100\<rparr>, Issue 7),
                        (\<lparr>sender = 1, timestamp = 150\<rparr>, Revoke 7)]) \<and>
   sender \<lparr>sender = 1, timestamp = 100\<rparr> \<noteq> 0 \<and>
   verifyCertificate (run deployed [(\<lparr>sender = 1, timestamp = 100\<rparr>, Issue 7),
                        (\<lparr>sender = 1, timestamp = 150\<rparr>, Revoke 7)]) 7 =
     Inr (False, 1, 100) \<and>
   getCertificateDetails (run deployed [(\<lparr>sender = 1, timestamp = 100\<rparr>, Issue 7),
                        (\<lparr>sender = 1, timestamp = 150\<rparr>, Revoke 7)]) 7 =
     (False, 1, 100, True) \<and>
   issueCertificate_ipfs \<lparr>sender = 1, timestamp = 100\<rparr> 7 ''QmX'' deployed_ipfs =
     Inr (run_ipfs deployed_ipfs [(\<lparr>sender = 1, timestamp = 100\<rparr>, Issue_ipfs 7 ''QmX'')]) \<and>
   revokeCertificate_ipfs \<lparr>sender = 1, timestamp = 150\<rparr> 7
       (run_ipfs deployed_ipfs [(\<lparr>sender = 1, timestamp = 100\<rparr>, Issue_ipfs 7 ''QmX'')]) =
     Inr (run_ipfs deployed_ipfs [(\<lparr>sender = 1, timestamp = 100\<rparr>, Issue_ipfs 7 ''QmX''),
                        (\<lparr>sender = 1, timestamp = 150\<rparr>, Revoke_ipfs 7)]) \<and>
   verifyCertificate_ipfs
       (run_ipfs deployed_ipfs [(\<lparr>sender = 1, timestamp = 100\<rparr>, Issue_ipfs 7 ''QmX''),
                        (\<lparr>sender = 1, timestamp = 150\<rparr>, Revoke_ipfs 7)]) 7 =
     Inr (False, 1, 100, ''QmX'') \<and>
   wasEverIssued
       (run_ipfs deployed_ipfs [(\<lparr>sender = 1, timestamp = 100\<rparr>, Issue_ipfs 7 ''QmX''),
                        (\<lparr>sender = 1, timestamp = 150\<rparr>, Revoke_ipfs 7)]) 7"
proof -
  let ?i = "(\<lparr>sender = 1, timestamp = 100\<rparr>, Issue 7) :: msg \<times> call"
  let ?r = "(\<lparr>sender = 1, timestamp = 150\<rparr>, Revoke 7) :: msg \<times> call"
  let ?i' = "(\<lparr>sender = 1, timestamp = 100\<rparr>, Issue_ipfs 7 ''QmX'') :: msg \<times> call_ipfs"
  let ?r' = "(\<lparr>sender = 1, timestamp = 150\<rparr>, Revoke_ipfs 7) :: msg \<times> call_ipfs"
  have h1: "issueCertificate \<lparr>sender = 1, timestamp = 100\<rparr> 7 deployed = Inr (run deployed [?i])"
    by (simp add: registry_eval)
  have h2: "revokeCertificate \<lparr>sender = 1, timestamp = 150\<rparr> 7 (run deployed [?i]) =
      Inr (run deployed [?i, ?r])"
    by (simp add: registry_eval)
  have h3: "sender \<lparr>sender = 1, timestamp = 100\<rparr> \<noteq> 0"
    by simp
  have h4: "issueCertificate_ipfs \<lparr>sender = 1, timestamp = 100\<rparr> 7 ''QmX'' deployed_ipfs =
      Inr (run_ipfs deployed_ipfs [?i'])"
    by (simp add: ipfs_eval)
  have h5: "revokeCertificate_ipfs \<lparr>sender = 1, timestamp = 150\<rparr> 7
      (run_ipfs deployed_ipfs [?i']) = Inr (run_ipfs deployed_ipfs [?i', ?r'])"
    by (simp add: ipfs_eval)
  show ?thesis
    using h1 h2 h3 h4 h5
      revoke_keeps_history [of "\<lparr>sender = 1, timestamp = 100\<rparr>" 7 deployed
        "run deployed [?i]" "\<lparr>sender = 1, timestamp = 150\<rparr>" "run deployed [?i, ?r]"
        "''QmX''" deployed_ipfs "run_ipfs deployed_ipfs [?i']" "run_ipfs deployed_ipfs [?i', ?r']"]
    by simp
qed

section \<open>The life of a key\<close>

lemma issue_state:
  "issueCertificate m k s = Inr s' \<Longrightarrow>
     state_of s k = Unknown \<and> state_of s' k = Active \<and>
     (\<forall>j. j \<noteq> k \<longrightarrow> certificates s' j = certificates s j \<and> state_of s' j = state_of s j)"
  by (simp add: issueCertificate_Inr state_of_def)

lemma revoke_state:
  "revokeCertificate m k s = Inr s' \<Longrightarrow>
     state_of s k = Active \<and> issuer (certificates s k) = sender m \<and>
     state_of s' k = (if sender m = 0 then Unknown else Revoked) \<and>
     (\<forall>j. j \<noteq> k \<longrightarrow> certificates s' j = certificates s j \<and> state_of s' j = state_of s j)"
  by (simp add: revokeCertificate_Inr state_of_def)

lemma success_state:
  assumes "call_result s (m, c) = Inr s'" "sender m \<noteq> 0"
  shows "(c = Issue k \<longrightarrow> state_of s k = Unknown \<and> state_of s' k = Active) \<and>
         (c = Revoke k \<longrightarrow> state_of s k = Active \<and> state_of s' k = Revoked) \<and>
         (c \<noteq> Issue k \<and> c \<noteq> Revoke k \<longrightarrow> state_of s' k = state_of s k)"
proof (cases c)
  case (Issue j)
  with assms have "issueCertificate m j s = Inr s'" by simp
  from issue_state [OF this] Issue show ?thesis
    by auto
next
  case (Revoke j)
  with assms have "revokeCertificate m j s = Inr s'" by simp
  from revoke_state [OF this] Revoke assms(2) show ?thesis
    by auto
qed

lemma revoked_exec: "state_of s k = Revoked \<Longrightarrow> state_of (exec s t) k = Revoked"
proof -
  assume r: "state_of s k = Revoked"
  obtain m c where t: "t = (m, c)" by (cases t)
  show ?thesis
  proof (cases "call_result s t")
    case (Inl e)
    then show ?thesis using r by (simp add: exec_def)
  next
    case (Inr s')
    then have e: "exec s t = s'" by (simp add: exec_def)
    show ?thesis
    proof (cases c)
      case (Issue j)
      with Inr t have "issueCertificate m j s = Inr s'" by simp
      from issue_state [OF this] r e show ?thesis
        by (cases "j = k") auto
    next
      case (Revoke j)
      with Inr t have "revokeCertificate m j s = Inr s'" by simp
      from revoke_state [OF this] r e show ?thesis
        by (cases "j = k") auto
    qed
  qed
qed

lemma revoked_run: "state_of s k = Revoked \<Longrightarrow> state_of (run s ts) k = Revoked"
  by (induction ts arbitrary: s) (simp_all add: run_Nil run_Cons revoked_exec)

lemma from_accounts_Cons:
  "from_accounts (t # ts) \<longleftrightarrow> sender (fst t) \<noteq> 0 \<and> from_accounts ts"
  by (simp add: from_accounts_def)

lemma known_exec:
  "sender (fst t) \<noteq> 0 \<Longrightarrow> state_of s k \<noteq> Unknown \<Longrightarrow> state_of (exec s t) k \<noteq> Unknown"
proof -
  assume z: "sender (fst t) \<noteq> 0" and u: "state_of s k \<noteq> Unknown"
  obtain m c where t: "t = (m, c)" by (cases t)
  show ?thesis
  proof (cases "call_result s t")
    case (Inl e)
    then show ?thesis using u by (simp add: exec_def)
  next
    case (Inr s')
    then have e: "exec s t = s'" by (simp add: exec_def)
    from success_state [of s m c s' k] Inr t z u e show ?thesis
      by (cases "c = Issue k"; cases "c = Revoke k") auto
  qed
qed

lemma known_run:
  "from_accounts ts \<Longrightarrow> state_of s k \<noteq> Unknown \<Longrightarrow> state_of (run s ts) k \<noteq> Unknown"
  by (induction ts arbitrary: s) (simp_all add: run_Nil run_Cons known_exec from_accounts_Cons)


text \<open>
  How often a key is issued and revoked in a sequence of transactions: once when its state
  moves, never otherwise.
\<close>

lemma issue_count:
  "from_accounts ts \<Longrightarrow>
     length (filter (\<lambda>t. snd t = Issue k) (successes s ts)) =
       (if state_of s k = Unknown \<and> state_of (run s ts) k \<noteq> Unknown then 1 else 0)"
proof (induction ts arbitrary: s)
  case Nil
  show ?case by (simp add: run_Nil)
next
  case (Cons t ts)
  from Cons.prems have z: "sender (fst t) \<noteq> 0" and fa: "from_accounts ts"
    by (simp_all add: from_accounts_Cons)
  obtain m c where t: "t = (m, c)" by (cases t)
  show ?case
  proof (cases "call_result s t")
    case (Inl e)
    then have "exec s t = s" by (simp add: exec_def)
    then show ?thesis
      using Cons.IH [OF fa, of s] Inl by (simp add: run_Cons)
  next
    case (Inr s')
    then have e: "exec s t = s'" by (simp add: exec_def)
    note st = success_state [of s m c s' k]
    show ?thesis
    proof (cases "c = Issue k")
      case True
      with st Inr t z have a: "state_of s k = Unknown" "state_of s' k = Active" by simp_all
      then have "state_of (run s' ts) k \<noteq> Unknown"
        using known_run [OF fa, of s' k] by simp
      then show ?thesis
        using Cons.IH [OF fa, of s'] Inr e a t True by (simp add: run_Cons)
    next
      case False
      show ?thesis
      proof (cases "c = Revoke k")
        case True
        with st Inr t z have a: "state_of s k = Active" "state_of s' k = Revoked" by simp_all
        then show ?thesis
          using Cons.IH [OF fa, of s'] Inr e t True by (simp add: run_Cons)
      next
        case nr: False
        with False st Inr t z have "state_of s' k = state_of s k" by simp
        then show ?thesis
          using Cons.IH [OF fa, of s'] Inr e t False by (simp add: run_Cons)
      qed
    qed
  qed
qed

lemma revoke_count:
  "from_accounts ts \<Longrightarrow>
     length (filter (\<lambda>t. snd t = Revoke k) (successes s ts)) =
       (if state_of s k \<noteq> Revoked \<and> state_of (run s ts) k = Revoked then 1 else 0)"
proof (induction ts arbitrary: s)
  case Nil
  show ?case by (simp add: run_Nil)
next
  case (Cons t ts)
  from Cons.prems have z: "sender (fst t) \<noteq> 0" and fa: "from_accounts ts"
    by (simp_all add: from_accounts_Cons)
  obtain m c where t: "t = (m, c)" by (cases t)
  show ?case
  proof (cases "call_result s t")
    case (Inl e)
    then have "exec s t = s" by (simp add: exec_def)
    then show ?thesis
      using Cons.IH [OF fa, of s] Inl by (simp add: run_Cons)
  next
    case (Inr s')
    then have e: "exec s t = s'" by (simp add: exec_def)
    note st = success_state [of s m c s' k]
    show ?thesis
    proof (cases "c = Revoke k")
      case True
      with st Inr t z have a: "state_of s k = Active" "state_of s' k = Revoked" by simp_all
      then have "state_of (run s' ts) k = Revoked"
        using revoked_run [of s' k ts] by simp
      then show ?thesis
        using Cons.IH [OF fa, of s'] Inr e a t True by (simp add: run_Cons)
    next
      case False
      show ?thesis
      proof (cases "c = Issue k")
        case True
        with st Inr t z have a: "state_of s k = Unknown" "state_of s' k = Active" by simp_all
        then show ?thesis
          using Cons.IH [OF fa, of s'] Inr e t True by (simp add: run_Cons)
      next
        case ni: False
        with False st Inr t z have "state_of s' k = state_of s k" by simp
        then show ?thesis
          using Cons.IH [OF fa, of s'] Inr e t False by (simp add: run_Cons)
      qed
    qed
  qed
qed


text \<open>
  C1. The lifecycle does not hold in every registry of the repository. The contract of
  src/unnamed/part_005 deletes the record on revocation and tests \<open>isValid\<close> alone on
  issuance: below, key 7 is issued, revoked by its issuer and issued again by another
  caller. The three transactions succeed; the revocation leaves the key unknown, not
  revoked, and after the second issuance the key is active again.
\<close>

theorem key_lifecycle_counterexample:
  "successes_del deployed_del
     [(\<lparr>sender = 1, timestamp = 100\<rparr>, Issue_del 7 ''Qm1''),
      (\<lparr>sender = 1, timestamp = 150\<rparr>, Revoke_del 7),
      (\<lparr>sender = 2, timestamp = 200\<rparr>, Issue_del 7 ''Qm2'')] =
     [(\<lparr>sender = 1, timestamp = 100\<rparr>, Issue_del 7 ''Qm1''),
      (\<lparr>sender = 1, timestamp = 150\<rparr>, Revoke_del 7),
      (\<lparr>sender = 2, timestamp = 200\<rparr>, Issue_del 7 ''Qm2'')] \<and>
   state_of_del (run_del deployed_del
     [(\<lparr>sender = 1, timestamp = 100\<rparr>, Issue_del 7 ''Qm1'')]) 7 = Active \<and>
   state_of_del (run_del deployed_del
     [(\<lparr>sender = 1, timestamp = 100\<rparr>, Issue_del 7 ''Qm1''),
      (\<lparr>sender = 1, timestamp = 150\<rparr>, Revoke_del 7)]) 7 = Unknown \<and>
   state_of_del (run_del deployed_del
     [(\<lparr>sender = 1, timestamp = 100\<rparr>, Issue_del 7 ''Qm1''),
      (\<lparr>sender = 1, timestamp = 150\<rparr>, Revoke_del 7),
      (\<lparr>sender = 2, timestamp = 200\<rparr>, Issue_del 7 ''Qm2'')]) 7 = Active"
  by (simp add: delete_eval)

text \<open>
  C1, for the contract that keeps revoked records, src/CertificateVerificationQR.sol.
  Every key is unknown in the deployed contract. A successful \<open>issueCertificate\<close>
  finds its key unknown and leaves it active; a successful \<open>revokeCertificate\<close> finds
  its key active and leaves it revoked; a revoked key stays revoked whatever
  transactions follow, so it is never active again; and in any sequence of transactions
  a key is issued at most once and revoked at most once, and a key once issued is never
  unknown again. Callers are non-zero addresses.
\<close>

theorem key_lifecycle:
  "state_of deployed k = Unknown \<and>
   (issueCertificate m k s = Inr s' \<longrightarrow> state_of s k = Unknown \<and> state_of s' k = Active) \<and>
   (revokeCertificate m k s = Inr s' \<and> sender m \<noteq> 0 \<longrightarrow>
      state_of s k = Active \<and> state_of s' k = Revoked) \<and>
   (state_of s k = Revoked \<longrightarrow> state_of (run s ts) k = Revoked) \<and>
   (from_accounts ts \<longrightarrow>
      length (filter (\<lambda>t. snd t = Issue k) (successes s ts)) \<le> 1 \<and>
      length (filter (\<lambda>t. snd t = Revoke k) (successes s ts)) \<le> 1 \<and>
      (state_of s k \<noteq> Unknown \<longrightarrow> state_of (run s ts) k \<noteq> Unknown))"
proof (intro conjI impI)
  show "state_of deployed k = Unknown"
    by (simp add: state_of_def deployed_def zero_Certificate_def)
next
  assume "issueCertificate m k s = Inr s'"
  from issue_state [OF this]
  show "state_of s k = Unknown" and "state_of s' k = Active" by simp_all
next
  assume "revokeCertificate m k s = Inr s' \<and> sender m \<noteq> 0"
  then have r: "revokeCertificate m k s = Inr s'" and z: "sender m \<noteq> 0" by simp_all
  from revoke_state [OF r] z
  show "state_of s k = Active" and "state_of s' k = Revoked" by simp_all
next
  assume "state_of s k = Revoked"
  then show "state_of (run s ts) k = Revoked" by (rule revoked_run)
next
  assume fa: "from_accounts ts"
  show "length (filter (\<lambda>t. snd t = Issue k) (successes s ts)) \<le> 1"
    using issue_count [OF fa, of k s] by simp
  show "length (filter (\<lambda>t. snd t = Revoke k) (successes s ts)) \<le> 1"
    using revoke_count [OF fa, of k s] by simp
  assume "state_of s k \<noteq> Unknown"
  then show "state_of (run s ts) k \<noteq> Unknown"
    using known_run [OF fa] by simp
qed


theorem key_lifecycle_witness:
  "issueCertificate \<lparr>sender = 1, timestamp = 100\<rparr> 7 deployed =
     Inr (run deployed [(\<lparr>sender = 1, timestamp = 100\<rparr>, Issue 7)]) \<and>
   state_of deployed 7 = Unknown \<and>
   state_of (run deployed [(\<lparr>sender = 1, timestamp = 100\<rparr>, Issue 7)]) 7 = Active \<and>
   revokeCertificate \<lparr>sender = 1, timestamp = 150\<rparr> 7
       (run deployed [(\<lparr>sender = 1, timestamp = 100\<rparr>, Issue 7)]) =
     Inr (run deployed [(\<lparr>sender = 1, timestamp = 100\<rparr>, Issue 7),
                        (\<lparr>sender = 1, timestamp = 150\<rparr>, Revoke 7)]) \<and>
   sender \<lparr>sender = 1, timestamp = 150\<rparr> \<noteq> 0 \<and>
   state_of (run deployed [(\<lparr>sender = 1, timestamp = 100\<rparr>, Issue 7),
                           (\<lparr>sender = 1, timestamp = 150\<rparr>, Revoke 7)]) 7 = Revoked \<and>
   state_of (run (run deployed [(\<lparr>sender = 1, timestamp = 100\<rparr>, Issue 7),
                                (\<lparr>sender = 1, timestamp = 150\<rparr>, Revoke 7)])
                 [(\<lparr>sender = 2, timestamp = 200\<rparr>, Issue 7),
                  (\<lparr>sender = 1, timestamp = 250\<rparr>, Issue 7)]) 7 = Revoked \<and>
   from_accounts [(\<lparr>sender = 1, timestamp = 100\<rparr>, Issue 7),
                  (\<lparr>sender = 2, timestamp = 120\<rparr>, Issue 7),
                  (\<lparr>sender = 1, timestamp = 150\<rparr>, Revoke 7),
                  (\<lparr>sender = 1, timestamp = 170\<rparr>, Revoke 7),
                  (\<lparr>sender = 2, timestamp = 200\<rparr>, Issue 7)] \<and>
   length (filter (\<lambda>t. snd t = Issue 7)
     (successes deployed [(\<lparr>sender = 1, timestamp = 100\<rparr>, Issue 7),
                  (\<lparr>sender = 2, timestamp = 120\<rparr>, Issue 7),
                  (\<lparr>sender = 1, timestamp = 150\<rparr>, Revoke 7),
                  (\<lparr>sender = 1, timestamp = 170\<rparr>, Revoke 7),
                  (\<lparr>sender = 2, timestamp = 200\<rparr>, Issue 7)])) \<le> 1 \<and>
   length (filter (\<lambda>t. snd t = Revoke 7)
     (successes deployed [(\<lparr>sender = 1, timestamp = 100\<rparr>, Issue 7),
                  (\<lparr>sender = 2, timestamp = 120\<rparr>, Issue 7),
                  (\<lparr>sender = 1, timestamp = 150\<rparr>, Revoke 7),
                  (\<lparr>sender = 1, timestamp = 170\<rparr>, Revoke 7),
                  (\<lparr>sender = 2, timestamp = 200\<rparr>, Issue 7)])) \<le> 1"
proof -
  let ?i = "(\<lparr>sender = 1, timestamp = 100\<rparr>, Issue 7) :: msg \<times> call"
  let ?r = "(\<lparr>sender = 1, timestamp = 150\<rparr>, Revoke 7) :: msg \<times> call"
  let ?ts = "[(\<lparr>sender = 1, timestamp = 100\<rparr>, Issue 7),
                  (\<lparr>sender = 2, timestamp = 120\<rparr>, Issue 7),
                  (\<lparr>sender = 1, timestamp = 150\<rparr>, Revoke 7),
                  (\<lparr>sender = 1, timestamp = 170\<rparr>, Revoke 7),
                  (\<lparr>sender = 2, timestamp = 200\<rparr>, Issue 7)] :: (msg \<times> call) list"
  have h1: "issueCertificate \<lparr>sender = 1, timestamp = 100\<rparr> 7 deployed = Inr (run deployed [?i])"
    by (simp add: registry_eval)
  have h2: "revokeCertificate \<lparr>sender = 1, timestamp = 150\<rparr> 7 (run deployed [?i]) =
      Inr (run deployed [?i, ?r])"
    by (simp add: registry_eval)
  have h3: "sender \<lparr>sender = 1, timestamp = 150\<rparr> \<noteq> 0"
    by simp
  have h4: "state_of (run deployed [?i, ?r]) 7 = Revoked"
    by (simp add: registry_eval)
  have h5: "from_accounts ?ts"
    by (simp add: from_accounts_def)
  show ?thesis
    using h1 h2 h3 h4 h5
      key_lifecycle [of 7 "\<lparr>sender = 1, timestamp = 100\<rparr>" deployed "run deployed [?i]" ?ts]
      key_lifecycle [of 7 "\<lparr>sender = 1, timestamp = 150\<rparr>" "run deployed [?i]"
        "run deployed [?i, ?r]" "[]"]
      key_lifecycle [of 7 "\<lparr>sender = 1, timestamp = 150\<rparr>" "run deployed [?i, ?r]"
        "run deployed [?i, ?r]"
        "[(\<lparr>sender = 2, timestamp = 200\<rparr>, Issue 7), (\<lparr>sender = 1, timestamp = 250\<rparr>, Issue 7)]"]
    by simp
qed

section \<open>What verification returns\<close>

lemma never_issued_exec:
  assumes z: "certificates s k = zero_Certificate"
    and n: "succeeds s t \<longrightarrow> snd t \<noteq> Issue k"
  shows "certificates (exec s t) k = zero_Certificate"
proof -
  obtain m c where t: "t = (m, c)" by (cases t)
  show ?thesis
  proof (cases "call_result s t")
    case (Inl e)
    then show ?thesis using z by (simp add: exec_def)
  next
    case (Inr s')
    then have e: "exec s t = s'" and ok: "succeeds s t"
      by (simp_all add: exec_def succeeds_def)
    show ?thesis
    proof (cases c)
      case (Issue j)
      with Inr t have i: "issueCertificate m j s = Inr s'" by simp
      from n ok t Issue have "j \<noteq> k" by auto
      with issue_state [OF i] z e show ?thesis by simp
    next
      case (Revoke j)
      with Inr t have r: "revokeCertificate m j s = Inr s'" by simp
      then have "isValid (certificates s j)" by (simp add: revokeCertificate_Inr)
      with z have "j \<noteq> k" by (auto simp: zero_Certificate_def)
      with revoke_state [OF r] z e show ?thesis by simp
    qed
  qed
qed

lemma never_issued_run:
  "certificates s k = zero_Certificate \<Longrightarrow>
   list_all (\<lambda>t. snd t \<noteq> Issue k) (successes s ts) \<Longrightarrow>
     certificates (run s ts) k = zero_Certificate"
proof (induction ts arbitrary: s)
  case Nil
  then show ?case by (simp add: run_Nil)
next
  case (Cons t ts)
  show ?case
  proof (cases "call_result s t")
    case (Inl e)
    then have "exec s t = s" by (simp add: exec_def)
    then show ?thesis using Cons Inl by (simp add: run_Cons)
  next
    case (Inr s')
    then have e: "exec s t = s'" by (simp add: exec_def)
    from Cons.prems(2) Inr have a: "snd t \<noteq> Issue k"
      and b: "list_all (\<lambda>t. snd t \<noteq> Issue k) (successes s' ts)"
      by simp_all
    have "certificates s' k = zero_Certificate"
      using never_issued_exec [OF Cons.prems(1), of t] a e by simp
    from Cons.IH [OF this b] show ?thesis by (simp add: run_Cons e)
  qed
qed

lemma issued_kept_exec:
  assumes "issuer (certificates s k) \<noteq> 0"
  shows "issuer (certificates (exec s t) k) = issuer (certificates s k) \<and>
         issuedAt (certificates (exec s t) k) = issuedAt (certificates s k)"
proof -
  obtain m c where t: "t = (m, c)" by (cases t)
  show ?thesis
  proof (cases "call_result s t")
    case (Inl e)
    then show ?thesis by (simp add: exec_def)
  next
    case (Inr s')
    then have e: "exec s t = s'" by (simp add: exec_def)
    show ?thesis
    proof (cases c)
      case (Issue j)
      with Inr t have i: "issueCertificate m j s = Inr s'" by simp
      then have "issuer (certificates s j) = 0" by (simp add: issueCertificate_Inr)
      with assms have "j \<noteq> k" by auto
      with issue_state [OF i] e show ?thesis by simp
    next
      case (Revoke j)
      with Inr t have r: "revokeCertificate m j s = Inr s'" by simp
      then show ?thesis using e by (simp add: revokeCertificate_Inr)
    qed
  qed
qed

lemma issued_kept_run:
  "issuer (certificates s k) \<noteq> 0 \<Longrightarrow>
     issuer (certificates (run s ts) k) = issuer (certificates s k) \<and>
     issuedAt (certificates (run s ts) k) = issuedAt (certificates s k)"
proof (induction ts arbitrary: s)
  case Nil
  show ?case by (simp add: run_Nil)
next
  case (Cons t ts)
  from issued_kept_exec [OF Cons.prems, of t]
  have a: "issuer (certificates (exec s t) k) = issuer (certificates s k)"
    and b: "issuedAt (certificates (exec s t) k) = issuedAt (certificates s k)" by simp_all
  from Cons.prems a have "issuer (certificates (exec s t) k) \<noteq> 0" by simp
  from Cons.IH [OF this] a b show ?case by (simp add: run_Cons)
qed

lemma issued_record_run:
  "(m, Issue k) \<in> set (successes s ts) \<Longrightarrow> sender m \<noteq> 0 \<Longrightarrow>
     issuer (certificates (run s ts) k) = sender m \<and>
     issuedAt (certificates (run s ts) k) = timestamp m"
proof (induction ts arbitrary: s)
  case Nil
  then show ?case by simp
next
  case (Cons t ts)
  show ?case
  proof (cases "call_result s t")
    case (Inl e)
    then have "exec s t = s" by (simp add: exec_def)
    then show ?thesis using Cons Inl by (simp add: run_Cons)
  next
    case (Inr s')
    then have e: "exec s t = s'" by (simp add: exec_def)
    from Cons.prems(1) Inr
    consider "t = (m, Issue k)" | "(m, Issue k) \<in> set (successes s' ts)" by auto
    then show ?thesis
    proof cases
      case 1
      with Inr have "issueCertificate m k s = Inr s'" by simp
      then have c: "certificates s' k =
          \<lparr>isValid = True, issuer = sender m, issuedAt = timestamp m\<rparr>"
        by (simp add: issueCertificate_Inr)
      with Cons.prems(2) have "issuer (certificates s' k) \<noteq> 0" by simp
      from issued_kept_run [OF this, of ts] c show ?thesis by (simp add: run_Cons e)
    next
      case 2
      from Cons.IH [OF 2 Cons.prems(2)] show ?thesis by (simp add: run_Cons e)
    qed
  qed
qed

lemma verify_unfold:
  "k \<noteq> 0 \<Longrightarrow> verifyCertificate s k =
     Inr (isValid (certificates s k), issuer (certificates s k), issuedAt (certificates s k))"
  by (simp add: verifyCertificate_def validHash_def require_def Let_def)


subsection \<open>The same for the contract with IPFS locators\<close>

lemma issue_ipfs_others:
  "issueCertificate_ipfs m j cid s = Inr s' \<Longrightarrow> k \<noteq> j \<Longrightarrow>
     certificates_ipfs s' k = certificates_ipfs s k"
  by (simp add: issueCertificate_ipfs_Inr)

lemma revoke_ipfs_fields:
  "revokeCertificate_ipfs m j s = Inr s' \<Longrightarrow>
     issuer (certificates_ipfs s' k) = issuer (certificates_ipfs s k) \<and>
     issuedAt (certificates_ipfs s' k) = issuedAt (certificates_ipfs s k) \<and>
     ipfsCID (certificates_ipfs s' k) = ipfsCID (certificates_ipfs s k) \<and>
     (k \<noteq> j \<longrightarrow> certificates_ipfs s' k = certificates_ipfs s k)"
  by (simp add: revokeCertificate_ipfs_Inr)

lemma never_issued_run_ipfs:
  "certificates_ipfs s k = zero_CertificateIPFS \<Longrightarrow>
   list_all (\<lambda>t. \<not> issues_key_ipfs k t) (successes_ipfs s ts) \<Longrightarrow>
     certificates_ipfs (run_ipfs s ts) k = zero_CertificateIPFS"
proof (induction ts arbitrary: s)
  case Nil
  then show ?case by (simp add: run_ipfs_Nil)
next
  case (Cons t ts)
  obtain m c where t: "t = (m, c)" by (cases t)
  show ?case
  proof (cases "call_result_ipfs s t")
    case (Inl e)
    then have "exec_ipfs s t = s" by (simp add: exec_ipfs_def)
    then show ?thesis using Cons Inl by (simp add: run_ipfs_Cons)
  next
    case (Inr s')
    then have e: "exec_ipfs s t = s'" by (simp add: exec_ipfs_def)
    from Cons.prems(2) Inr have a: "\<not> issues_key_ipfs k t"
      and b: "list_all (\<lambda>t. \<not> issues_key_ipfs k t) (successes_ipfs s' ts)"
      by simp_all
    have "certificates_ipfs s' k = zero_CertificateIPFS"
    proof (cases c)
      case (Issue_ipfs j cid)
      with Inr t have i: "issueCertificate_ipfs m j cid s = Inr s'" by simp
      from a t Issue_ipfs have "k \<noteq> j" by auto
      from issue_ipfs_others [OF i this] Cons.prems(1) show ?thesis by simp
    next
      case (Revoke_ipfs j)
      with Inr t have r: "revokeCertificate_ipfs m j s = Inr s'" by simp
      then have "isValid (certificates_ipfs s j)" by (simp add: revokeCertificate_ipfs_Inr)
      with Cons.prems(1) have "k \<noteq> j" by (auto simp: zero_CertificateIPFS_def)
      with revoke_ipfs_fields [OF r, of k] Cons.prems(1) show ?thesis by simp
    qed
    from Cons.IH [OF this b] show ?thesis by (simp add: run_ipfs_Cons e)
  qed
qed

lemma issued_kept_exec_ipfs:
  assumes "issuer (certificates_ipfs s k) \<noteq> 0"
  shows "issuer (certificates_ipfs (exec_ipfs s t) k) = issuer (certificates_ipfs s k) \<and>
         issuedAt (certificates_ipfs (exec_ipfs s t) k) = issuedAt (certificates_ipfs s k) \<and>
         ipfsCID (certificates_ipfs (exec_ipfs s t) k) = ipfsCID (certificates_ipfs s k)"
proof -
  obtain m c where t: "t = (m, c)" by (cases t)
  show ?thesis
  proof (cases "call_result_ipfs s t")
    case (Inl e)
    then show ?thesis by (simp add: exec_ipfs_def)
  next
    case (Inr s')
    then have e: "exec_ipfs s t = s'" by (simp add: exec_ipfs_def)
    show ?thesis
    proof (cases c)
      case (Issue_ipfs j cid)
      with Inr t have i: "issueCertificate_ipfs m j cid s = Inr s'" by simp
      then have "issuer (certificates_ipfs s j) = 0" by (simp add: issueCertificate_ipfs_Inr)
      with assms have "k \<noteq> j" by auto
      from issue_ipfs_others [OF i this] e show ?thesis by simp
    next
      case (Revoke_ipfs j)
      with Inr t have r: "revokeCertificate_ipfs m j s = Inr s'" by simp
      from revoke_ipfs_fields [OF r, of k] e show ?thesis by simp
    qed
  qed
qed

lemma issued_kept_run_ipfs:
  "issuer (certificates_ipfs s k) \<noteq> 0 \<Longrightarrow>
     issuer (certificates_ipfs (run_ipfs s ts) k) = issuer (certificates_ipfs s k) \<and>
     issuedAt (certificates_ipfs (run_ipfs s ts) k) = issuedAt (certificates_ipfs s k) \<and>
     ipfsCID (certificates_ipfs (run_ipfs s ts) k) = ipfsCID (certificates_ipfs s k)"
proof (induction ts arbitrary: s)
  case Nil
  show ?case by (simp add: run_ipfs_Nil)
next
  case (Cons t ts)
  note a = issued_kept_exec_ipfs [OF Cons.prems, of t]
  from Cons.prems a have "issuer (certificates_ipfs (exec_ipfs s t) k) \<noteq> 0" by simp
  from Cons.IH [OF this] a show ?case by (simp add: run_ipfs_Cons)
qed

lemma issued_record_run_ipfs:
  "(m, Issue_ipfs k cid) \<in> set (successes_ipfs s ts) \<Longrightarrow> sender m \<noteq> 0 \<Longrightarrow>
     k \<noteq> 0 \<and>
     issuer (certificates_ipfs (run_ipfs s ts) k) = sender m \<and>
     issuedAt (certificates_ipfs (run_ipfs s ts) k) = timestamp m \<and>
     ipfsCID (certificates_ipfs (run_ipfs s ts) k) = cid"
proof (induction ts arbitrary: s)
  case Nil
  then show ?case by simp
next
  case (Cons t ts)
  show ?case
  proof (cases "call_result_ipfs s t")
    case (Inl e)
    then have "exec_ipfs s t = s" by (simp add: exec_ipfs_def)
    then show ?thesis using Cons Inl by (simp add: run_ipfs_Cons)
  next
    case (Inr s')
    then have e: "exec_ipfs s t = s'" by (simp add: exec_ipfs_def)
    from Cons.prems(1) Inr
    consider "t = (m, Issue_ipfs k cid)"
      | "(m, Issue_ipfs k cid) \<in> set (successes_ipfs s' ts)" by auto
    then show ?thesis
    proof cases
      case 1
      with Inr have "issueCertificate_ipfs m k cid s = Inr s'" by simp
      then have c: "certificates_ipfs s' k =
          \<lparr>isValid = True, issuer = sender m, issuedAt = timestamp m, ipfsCID = cid\<rparr>"
        and k: "k \<noteq> 0"
        by (simp_all add: issueCertificate_ipfs_Inr)
      with Cons.prems(2) have "issuer (certificates_ipfs s' k) \<noteq> 0" by simp
      from issued_kept_run_ipfs [OF this, of ts] c k show ?thesis
        by (simp add: run_ipfs_Cons e)
    next
      case 2
      from Cons.IH [OF 2 Cons.prems(2)] show ?thesis by (simp add: run_ipfs_Cons e)
    qed
  qed
qed

lemma verify_ipfs_unfold:
  "k \<noteq> 0 \<Longrightarrow> verifyCertificate_ipfs s k =
     Inr (isValid (certificates_ipfs s k), issuer (certificates_ipfs s k),
          issuedAt (certificates_ipfs s k), ipfsCID (certificates_ipfs s k))"
  by (simp add: verifyCertificate_ipfs_def validHash_ipfs_def require_def Let_def)


text \<open>
  C7. For a non-zero key, \<open>verifyCertificate\<close> does not fail. When no issuance of the
  key has succeeded it returns the zero record: \<open>false\<close>, the zero address, timestamp
  zero (and the empty locator in the contract with IPFS locators). When an issuance of
  the key by a non-zero address has succeeded, it returns the issuer and the timestamp
  (and the locator) of that issuance, with \<open>true\<close> while the certificate is active and
  \<open>false\<close> once it is revoked.
\<close>

theorem verify_returns_record:
  "k \<noteq> 0 \<longrightarrow>
     (list_all (\<lambda>t. snd t \<noteq> Issue k) (successes deployed ts) \<longrightarrow>
        verifyCertificate (run deployed ts) k = Inr (False, 0, 0)) \<and>
     ((m, Issue k) \<in> set (successes deployed ts) \<and> sender m \<noteq> 0 \<longrightarrow>
        state_of (run deployed ts) k \<noteq> Unknown \<and>
        verifyCertificate (run deployed ts) k =
          Inr (state_of (run deployed ts) k = Active, sender m, timestamp m)) \<and>
     (list_all (\<lambda>t. \<not> issues_key_ipfs k t) (successes_ipfs deployed_ipfs us) \<longrightarrow>
        verifyCertificate_ipfs (run_ipfs deployed_ipfs us) k = Inr (False, 0, 0, [])) \<and>
     ((m, Issue_ipfs k cid) \<in> set (successes_ipfs deployed_ipfs us) \<and> sender m \<noteq> 0 \<longrightarrow>
        wasEverIssued (run_ipfs deployed_ipfs us) k \<and>
        verifyCertificate_ipfs (run_ipfs deployed_ipfs us) k =
          Inr (isValid (certificates_ipfs (run_ipfs deployed_ipfs us) k),
               sender m, timestamp m, cid))"
proof (intro impI conjI)
  assume k: "k \<noteq> 0"
  {
    assume n: "list_all (\<lambda>t. snd t \<noteq> Issue k) (successes deployed ts)"
    have "certificates deployed k = zero_Certificate" by (simp add: deployed_def)
    from never_issued_run [OF this n]
    show "verifyCertificate (run deployed ts) k = Inr (False, 0, 0)"
      using k by (simp add: verify_unfold zero_Certificate_def)
  }
  {
    assume "(m, Issue k) \<in> set (successes deployed ts) \<and> sender m \<noteq> 0"
    then have i: "(m, Issue k) \<in> set (successes deployed ts)" and z: "sender m \<noteq> 0"
      by simp_all
    note r = issued_record_run [OF i z]
    from r z show "state_of (run deployed ts) k \<noteq> Unknown"
      by (simp add: state_of_def)
    from r show "verifyCertificate (run deployed ts) k =
        Inr (state_of (run deployed ts) k = Active, sender m, timestamp m)"
      using k by (simp add: verify_unfold state_of_Active)
  }
  {
    assume n: "list_all (\<lambda>t. \<not> issues_key_ipfs k t) (successes_ipfs deployed_ipfs us)"
    have "certificates_ipfs deployed_ipfs k = zero_CertificateIPFS"
      by (simp add: deployed_ipfs_def)
    from never_issued_run_ipfs [OF this n]
    show "verifyCertificate_ipfs (run_ipfs deployed_ipfs us) k = Inr (False, 0, 0, [])"
      using k by (simp add: verify_ipfs_unfold zero_CertificateIPFS_def)
  }
  assume "(m, Issue_ipfs k cid) \<in> set (successes_ipfs deployed_ipfs us) \<and> sender m \<noteq> 0"
  then have i: "(m, Issue_ipfs k cid) \<in> set (successes_ipfs deployed_ipfs us)"
    and z: "sender m \<noteq> 0"
    by simp_all
  note r = issued_record_run_ipfs [OF i z]
  from r z show "wasEverIssued (run_ipfs deployed_ipfs us) k"
    by (simp add: wasEverIssued_def)
  from r show "verifyCertificate_ipfs (run_ipfs deployed_ipfs us) k =
      Inr (isValid (certificates_ipfs (run_ipfs deployed_ipfs us) k),
           sender m, timestamp m, cid)"
    using k by (simp add: verify_ipfs_unfold)
qed


theorem verify_returns_record_witness:
  "(7 :: bytes32) \<noteq> 0 \<and>
   list_all (\<lambda>t. snd t \<noteq> Issue 7)
     (successes deployed [(\<lparr>sender = 1, timestamp = 100\<rparr>, Issue 9),
                          (\<lparr>sender = 1, timestamp = 110\<rparr>, Revoke 7)]) \<and>
   verifyCertificate (run deployed [(\<lparr>sender = 1, timestamp = 100\<rparr>, Issue 9),
                          (\<lparr>sender = 1, timestamp = 110\<rparr>, Revoke 7)]) 7 = Inr (False, 0, 0) \<and>
   (\<lparr>sender = 1, timestamp = 100\<rparr>, Issue 7) \<in>
     set (successes deployed [(\<lparr>sender = 1, timestamp = 100\<rparr>, Issue 7),
                              (\<lparr>sender = 1, timestamp = 150\<rparr>, Revoke 7)]) \<and>
   sender \<lparr>sender = 1, timestamp = 100\<rparr> \<noteq> 0 \<and>
   verifyCertificate (run deployed [(\<lparr>sender = 1, timestamp = 100\<rparr>, Issue 7),
                              (\<lparr>sender = 1, timestamp = 150\<rparr>, Revoke 7)]) 7 =
     Inr (False, 1, 100) \<and>
   list_all (\<lambda>t. \<not> issues_key_ipfs 7 t)
     (successes_ipfs deployed_ipfs [(\<lparr>sender = 1, timestamp = 100\<rparr>, Issue_ipfs 9 ''QmX'')]) \<and>
   verifyCertificate_ipfs
     (run_ipfs deployed_ipfs [(\<lparr>sender = 1, timestamp = 100\<rparr>, Issue_ipfs 9 ''QmX'')]) 7 =
     Inr (False, 0, 0, []) \<and>
   (\<lparr>sender = 1, timestamp = 100\<rparr>, Issue_ipfs 7 ''QmX'') \<in>
     set (successes_ipfs deployed_ipfs [(\<lparr>sender = 1, timestamp = 100\<rparr>, Issue_ipfs 7 ''QmX'')]) \<and>
   verifyCertificate_ipfs
     (run_ipfs deployed_ipfs [(\<lparr>sender = 1, timestamp = 100\<rparr>, Issue_ipfs 7 ''QmX'')]) 7 =
     Inr (True, 1, 100, ''QmX'')"
proof -
  let ?m = "\<lparr>sender = 1, timestamp = 100\<rparr> :: msg"
  let ?ts0 = "[(\<lparr>sender = 1, timestamp = 100\<rparr>, Issue 9),
               (\<lparr>sender = 1, timestamp = 110\<rparr>, Revoke 7)] :: (msg \<times> call) list"
  let ?ts1 = "[(\<lparr>sender = 1, timestamp = 100\<rparr>, Issue 7),
               (\<lparr>sender = 1, timestamp = 150\<rparr>, Revoke 7)] :: (msg \<times> call) list"
  let ?us0 = "[(\<lparr>sender = 1, timestamp = 100\<rparr>, Issue_ipfs 9 ''QmX'')] :: (msg \<times> call_ipfs) list"
  let ?us1 = "[(\<lparr>sender = 1, timestamp = 100\<rparr>, Issue_ipfs 7 ''QmX'')] :: (msg \<times> call_ipfs) list"
  have h1: "(7 :: bytes32) \<noteq> 0" by simp
  have h2: "list_all (\<lambda>t. snd t \<noteq> Issue 7) (successes deployed ?ts0)"
    by (simp add: registry_eval)
  have h3: "(?m, Issue 7) \<in> set (successes deployed ?ts1)"
    by (simp add: registry_eval)
  have h4: "sender ?m \<noteq> 0" by simp
  have h5: "list_all (\<lambda>t. \<not> issues_key_ipfs 7 t) (successes_ipfs deployed_ipfs ?us0)"
    by (simp add: ipfs_eval)
  have h6: "(?m, Issue_ipfs 7 ''QmX'') \<in> set (successes_ipfs deployed_ipfs ?us1)"
    by (simp add: ipfs_eval)
  have s1: "state_of (run deployed ?ts1) 7 = Revoked"
    by (simp add: registry_eval)
  have s2: "isValid (certificates_ipfs (run_ipfs deployed_ipfs ?us1) 7)"
    by (simp add: ipfs_eval)
  show ?thesis
    using h1 h2 h3 h4 h5 h6 s1 s2
      verify_returns_record [of 7 ?ts0 ?m ?us0 "''QmX''"]
      verify_returns_record [of 7 ?ts1 ?m ?us1 "''QmX''"]
    by simp
qed

section \<open>The contract that deletes on revocation\<close>

text \<open>
  C10. In the contract of src/unnamed/part_005 a successful \<open>revokeCertificate\<close> (its
  caller is the issuer) erases the record of the key: \<open>verifyCertificate\<close> returns the
  zero record, as it does for that key in the deployed contract, and
  \<open>getCertificateIssuer\<close> returns the zero address. After it \<open>issueCertificate\<close> of the
  same key with a non-empty locator succeeds for any caller, who is the issuer of the
  new record.
\<close>

theorem revoke_erases_record:
  "revokeCertificate_del m k s = Inr s' \<Longrightarrow>
     issuer (certificates_del s k) = sender m \<and>
     certificates_del s' k = zero_CertificateIPFS \<and>
     verifyCertificate_del s' k = (False, 0, 0, []) \<and>
     verifyCertificate_del s' k = verifyCertificate_del deployed_del k \<and>
     getCertificateIssuer_del s' k = 0 \<and>
     (cid \<noteq> [] \<longrightarrow>
        (\<exists>s''. issueCertificate_del m' k cid s' = Inr s'' \<and>
               verifyCertificate_del s'' k = (True, sender m', timestamp m', cid) \<and>
               getCertificateIssuer_del s'' k = sender m'))"
  by (auto simp: revokeCertificate_del_Inr issueCertificate_del_Inr verifyCertificate_del_def
      getCertificateIssuer_del_def zero_CertificateIPFS_def deployed_del_def Let_def)

theorem revoke_erases_record_witness:
  "revokeCertificate_del \<lparr>sender = 1, timestamp = 150\<rparr> 7
       (run_del deployed_del [(\<lparr>sender = 1, timestamp = 100\<rparr>, Issue_del 7 ''Qm1'')]) =
     Inr (run_del deployed_del [(\<lparr>sender = 1, timestamp = 100\<rparr>, Issue_del 7 ''Qm1''),
                                (\<lparr>sender = 1, timestamp = 150\<rparr>, Revoke_del 7)]) \<and>
   verifyCertificate_del
       (run_del deployed_del [(\<lparr>sender = 1, timestamp = 100\<rparr>, Issue_del 7 ''Qm1'')]) 7 =
     (True, 1, 100, ''Qm1'') \<and>
   verifyCertificate_del
       (run_del deployed_del [(\<lparr>sender = 1, timestamp = 100\<rparr>, Issue_del 7 ''Qm1''),
                              (\<lparr>sender = 1, timestamp = 150\<rparr>, Revoke_del 7)]) 7 =
     (False, 0, 0, []) \<and>
   ''Qm2'' \<noteq> [] \<and>
   (\<exists>s''. issueCertificate_del \<lparr>sender = 2, timestamp = 200\<rparr> 7 ''Qm2''
       (run_del deployed_del [(\<lparr>sender = 1, timestamp = 100\<rparr>, Issue_del 7 ''Qm1''),
                              (\<lparr>sender = 1, timestamp = 150\<rparr>, Revoke_del 7)]) = Inr s'' \<and>
       verifyCertificate_del s'' 7 = (True, 2, 200, ''Qm2'') \<and>
       getCertificateIssuer_del s'' 7 = 2)"
proof -
  let ?i = "(\<lparr>sender = 1, timestamp = 100\<rparr>, Issue_del 7 ''Qm1'') :: msg \<times> call_del"
  let ?r = "(\<lparr>sender = 1, timestamp = 150\<rparr>, Revoke_del 7) :: msg \<times> call_del"
  have h: "revokeCertificate_del \<lparr>sender = 1, timestamp = 150\<rparr> 7 (run_del deployed_del [?i]) =
      Inr (run_del deployed_del [?i, ?r])"
    by (simp add: delete_eval)
  have v: "verifyCertificate_del (run_del deployed_del [?i]) 7 = (True, 1, 100, ''Qm1'')"
    by (simp add: delete_eval)
  show ?thesis
    using h v revoke_erases_record [OF h, of "''Qm2''" "\<lparr>sender = 2, timestamp = 200\<rparr>"]
    by simp
qed

section \<open>Key strings at the HTTP boundary\<close>

lemma hexToBytes32_Inr:
  "hexToBytes32 h = Inr b \<longleftrightarrow> length (strip_0x h) = 64 \<and> b = ''0x'' @ strip_0x h"
  by (auto simp: hexToBytes32_def Let_def)


text \<open>
  \<open>GET /api/certificate/:hash\<close> answers 400 to every string the pattern does not
  match, and calls the contract only with strings it matches.
\<close>

lemma get_certificate_rejects:
  "\<not> hash_format_test h \<Longrightarrow> get_certificate True h = Respond 400 ''Invalid hash format''"
  by (simp add: get_certificate_def)

lemma get_certificate_calls:
  "get_certificate ready h = Calls_verifyCertificate b \<Longrightarrow> hash_format_test h"
  by (auto simp: get_certificate_def split: if_splits sum.splits)


text \<open>
  \<open>POST /api/verify-qr\<close> has no such test: whatever passes \<open>hexToBytes32\<close>, which
  looks at the length only, goes to the contract.
\<close>

lemma verify_qr_calls:
  "verify_qr ready ty h = Calls_verifyCertificate b \<longleftrightarrow>
     ready \<and> ty = ''certificate'' \<and> h \<noteq> [] \<and> length (strip_0x h) = 64 \<and>
     b = ''0x'' @ strip_0x h"
  by (auto simp: verify_qr_def hexToBytes32_def Let_def split: if_splits sum.splits)


text \<open>
  C8. A key string that does not match \<open>^(0x)?[0-9a-fA-F]{64}$\<close> is to be rejected
  before the contract is called. The string of 64 letters \<open>z\<close> does not match; the
  handler of \<open>GET /api/certificate/:hash\<close> answers it with 400, but \<open>hexToBytes32\<close>
  accepts it and the handler of \<open>POST /api/verify-qr\<close> calls
  \<open>contract.verifyCertificate\<close> with it.
\<close>

theorem verify_qr_lets_non_hex_through:
  "\<not> hash_format_test
       ''zzzzzzzzzzzzzzzzzzzzzzzzzzzzzzzzzzzzzzzzzzzzzzzzzzzzzzzzzzzzzzzz'' \<and>
   hexToBytes32 ''zzzzzzzzzzzzzzzzzzzzzzzzzzzzzzzzzzzzzzzzzzzzzzzzzzzzzzzzzzzzzzzz'' =
     Inr ''0xzzzzzzzzzzzzzzzzzzzzzzzzzzzzzzzzzzzzzzzzzzzzzzzzzzzzzzzzzzzzzzzz'' \<and>
   verify_qr True ''certificate''
       ''zzzzzzzzzzzzzzzzzzzzzzzzzzzzzzzzzzzzzzzzzzzzzzzzzzzzzzzzzzzzzzzz'' =
     Calls_verifyCertificate
       ''0xzzzzzzzzzzzzzzzzzzzzzzzzzzzzzzzzzzzzzzzzzzzzzzzzzzzzzzzzzzzzzzzz'' \<and>
   get_certificate True
       ''zzzzzzzzzzzzzzzzzzzzzzzzzzzzzzzzzzzzzzzzzzzzzzzzzzzzzzzzzzzzzzzz'' =
     Respond 400 ''Invalid hash format''"
  by (simp add: hash_format_test_def is_hex_digit_def hexToBytes32_def strip_0x_def
      verify_qr_def get_certificate_def)


end
